theory Spec2Isabelle
  imports Complex_Main "HOL-Library.Word"
begin

section \<open>Data model shared by the two firmware variants\<close>

text \<open>
  The repository holds two variants of one optogenetics controller sketch:
  \<^verbatim>\<open>OptogeneticController_Svedberg/ChrimsonOptogeneticController_Svedberg.ino\<close> (pulse mode) and
  \<^verbatim>\<open>ChrimsonOptogeneticController_NH/ChrimsonOptogeneticController_NH.ino\<close> (duty-cycle mode).
  Definitions without a suffix embed the Svedberg file; definitions that end in \<open>_NH\<close> embed the
  NH file.

  Conventions of the embedding.
  \<^item> A C \<^verbatim>\<open>float\<close> is an exact rational: rounding is not modelled.
  \<^item> \<^verbatim>\<open>millis()\<close> is an \<^verbatim>\<open>unsigned long\<close>, a 32-bit word whose subtraction wraps.
    One pass of the main loop sees one clock reading and one sample of every input pin.
  \<^item> The global variables are the fields of one record; a function that assigns globals takes
    the record and returns it updated.
  \<^item> Every \<^verbatim>\<open>digitalWrite\<close>, \<^verbatim>\<open>analogWrite\<close>, \<^verbatim>\<open>delay\<close> and \<^verbatim>\<open>sendMessage\<close> is appended to
    the field \<open>out\<close>, in program order. Messages keep their class and their structured
    content; the decimal formatting of numbers inside free text is dropped.
  \<^item> An indexed write with an index that comes from the host is guarded: outside the array it
    yields the error \<open>OutOfBounds\<close>, where the C program has undefined behaviour.
  \<^item> A division by a run-time value is guarded: a zero divisor yields the error \<open>NotFinite\<close>,
    where the C program computes an infinity or a NaN, which no rational stands for.
\<close>

type_synonym float = rat
type_synonym millis = "32 word"

datatype State = INIT | IDLE_STATE | INIT_EXP | WAIT_REQUEST_STATE | CHRIMSON_STIM_STATE
  | CHR2_STIM_STATE | OPTO_LADDER_STATE | DAN_TAG_STATE | UPDATE_PARAMS_STATE

datatype EventMarkers = EVENT_EXP_INIT | EVENT_TRIAL_INIT | EVENT_CUE_ON
  | EVENT_BOSS_CHRIMSON_REQUEST | EVENT_BOSS_CHRIMSON_STIM_BEGIN | EVENT_BOSS_CHRIMSON_STIM_END
  | EVENT_BOSS_CHR2_REQUEST | EVENT_BOSS_CHR2_STIM_BEGIN | EVENT_BOSS_CHR2_STIM_END
  | EVENT_UI_CHRIMSON_REQUEST | EVENT_UI_CHRIMSON_STIM_BEGIN | EVENT_UI_CHRIMSON_STIM_END
  | EVENT_CHRIMSON_ERROR
  | EVENT_UI_CHR2_REQUEST | EVENT_UI_CHR2_STIM_BEGIN | EVENT_UI_CHR2_STIM_END
  | EVENT_CHR2_ERROR

datatype ResultCode = CODE_CHRIMSON | CODE_CHR2 | CODE_CHRIMSON_CANCEL | CODE_CHR2_CANCEL
  | CODE_UI_CHRIMSON | CODE_UI_CHR2 | CODE_OPTOTAG | CODE_DANTAG

datatype pin = PIN_CHRIMSON_STIM | PIN_CHRIMSON_RECEIPT | PIN_CHR2_STIM | PIN_CHR2_RECEIPT
  | PIN_PHOTOMETRY_LED | PIN_CHRIMSON_PWR | PIN_CHR2_PWR

text \<open>
  The classes of outgoing messages: \<open>StateMsg\<close> is the line \<^verbatim>\<open>$state\<close>, \<open>EventMsg\<close> the line
  \<^verbatim>\<open>&marker timestamp\<close>, \<open>ResultMsg\<close> the backquote line with a result code, \<open>ReceiptMsg\<close> the
  line \<^verbatim>\<open>R\<close>, \<open>ParamMsg\<close> the line \<^verbatim>\<open>^ id name value\<close>, \<open>Warning\<close> a line that starts with
  \<^verbatim>\<open>WARNING:\<close>, \<open>Debug\<close> a line sent only when \<^verbatim>\<open>_params[_DEBUG]\<close> is non-zero, \<open>Text\<close> any other
  free text, and \<open>Enumerations\<close> and \<open>Online\<close> the boot-time output of \<^verbatim>\<open>hostInit\<close>.
\<close>

datatype msg = StateMsg State | EventMsg EventMarkers int | ResultMsg ResultCode | ReceiptMsg
  | ParamMsg nat float | Warning String.literal | Debug String.literal | Text String.literal
  | Enumerations | Online

datatype event = DigitalWrite pin bool | AnalogWrite pin int | Send msg | Delay nat

datatype error = OutOfBounds | NotFinite

text \<open>What one pass of the main loop reads from outside: the clock, the decoded host message
  completed in this pass (if any), and the input pins.\<close>

record inputs =
  millis_now :: millis
  host_message :: "(char \<times> int \<times> int) option"
  pin_CHRIMSON_TRIGGER :: bool
  pin_TRIAL_INIT :: bool
  pin_CUE_ON :: bool
  pin_CANCEL :: bool

definition signedMillis :: "millis \<Rightarrow> int" where
  "signedMillis now = uint now"

definition elapsed :: "millis \<Rightarrow> millis \<Rightarrow> float" where
  "elapsed now since = of_nat (unat (now - since))"

text \<open>The conversion of a \<^verbatim>\<open>float\<close> argument to an \<^verbatim>\<open>int\<close> parameter truncates towards zero.\<close>

definition float_to_int :: "float \<Rightarrow> int" where
  "float_to_int x = (if 0 \<le> x then \<lfloor>x\<rfloor> else \<lceil>x\<rceil>)"

definition constrain :: "int \<Rightarrow> int \<Rightarrow> int \<Rightarrow> int" where
  "constrain x lo hi = (if x < lo then lo else if hi < x then hi else x)"

text \<open>The level of an output pin after a sequence of events: the last value written to it,
  \<open>False\<close> (low) when nothing was written.\<close>

fun level_from :: "pin \<Rightarrow> bool \<Rightarrow> event list \<Rightarrow> bool" where
  "level_from p v [] = v"
| "level_from p v (DigitalWrite q w # es) = level_from p (if q = p then w else v) es"
| "level_from p v (e # es) = level_from p v es"

definition level :: "pin \<Rightarrow> event list \<Rightarrow> bool" where
  "level p es = level_from p False es"

section \<open>The Svedberg variant\<close>

subsection \<open>Parameters and global variables\<close>

text \<open>
  The record \<open>globals\<close> holds the global variables that the two files declare alike; the
  functions that the two files define with the same text are defined once, for every
  extension of \<open>globals\<close>. The record \<open>machine\<close> adds the globals of the Svedberg file.
\<close>

abbreviation (input) DEBUG :: nat where "DEBUG \<equiv> 0"
abbreviation (input) OPTO_ENABLED :: nat where "OPTO_ENABLED \<equiv> 1"
abbreviation (input) CANCEL_ENABLED :: nat where "CANCEL_ENABLED \<equiv> 2"
abbreviation (input) CHRIMSON_NUM_PULSES :: nat where "CHRIMSON_NUM_PULSES \<equiv> 3"
abbreviation (input) CHRIMSON_PULSE_WIDTH :: nat where "CHRIMSON_PULSE_WIDTH \<equiv> 4"
abbreviation (input) CHRIMSON_IPI :: nat where "CHRIMSON_IPI \<equiv> 5"
abbreviation (input) CHR2_NUM_PULSES :: nat where "CHR2_NUM_PULSES \<equiv> 6"
abbreviation (input) CHR2_PULSE_WIDTH :: nat where "CHR2_PULSE_WIDTH \<equiv> 7"
abbreviation (input) CHR2_IPI :: nat where "CHR2_IPI \<equiv> 8"
abbreviation (input) CHRIMSON_CHR2_NUM_PULSES :: nat where "CHRIMSON_CHR2_NUM_PULSES \<equiv> 9"
abbreviation (input) CHRIMSON_CHR2_PULSE_WIDTH :: nat where "CHRIMSON_CHR2_PULSE_WIDTH \<equiv> 10"
abbreviation (input) CHRIMSON_CHR2_IPI :: nat where "CHRIMSON_CHR2_IPI \<equiv> 11"
abbreviation (input) CHRIMSON_AOUT_1_VALUE :: nat where "CHRIMSON_AOUT_1_VALUE \<equiv> 12"
abbreviation (input) CHRIMSON_AOUT_2_VALUE :: nat where "CHRIMSON_AOUT_2_VALUE \<equiv> 13"
abbreviation (input) CHRIMSON_AOUT_3_VALUE :: nat where "CHRIMSON_AOUT_3_VALUE \<equiv> 14"
abbreviation (input) CHRIMSON_AOUT_4_VALUE :: nat where "CHRIMSON_AOUT_4_VALUE \<equiv> 15"
abbreviation (input) CHRIMSON_AOUT_5_VALUE :: nat where "CHRIMSON_AOUT_5_VALUE \<equiv> 16"
abbreviation (input) CHRIMSON_AOUT_6_VALUE :: nat where "CHRIMSON_AOUT_6_VALUE \<equiv> 17"
abbreviation (input) CHR2_AOUT_1_VALUE :: nat where "CHR2_AOUT_1_VALUE \<equiv> 18"
abbreviation (input) CHR2_AOUT_2_VALUE :: nat where "CHR2_AOUT_2_VALUE \<equiv> 19"
abbreviation (input) CHR2_AOUT_3_VALUE :: nat where "CHR2_AOUT_3_VALUE \<equiv> 20"
abbreviation (input) CHR2_AOUT_4_VALUE :: nat where "CHR2_AOUT_4_VALUE \<equiv> 21"
abbreviation (input) CHR2_AOUT_5_VALUE :: nat where "CHR2_AOUT_5_VALUE \<equiv> 22"
abbreviation (input) CHR2_AOUT_6_VALUE :: nat where "CHR2_AOUT_6_VALUE \<equiv> 23"
abbreviation (input) STIM_TRAIN_DELAY :: nat where "STIM_TRAIN_DELAY \<equiv> 24"
abbreviation (input) PHOTOMETRY_ON :: nat where "PHOTOMETRY_ON \<equiv> 25"
abbreviation (input) PHOT_TOGGLE_DELAY :: nat where "PHOT_TOGGLE_DELAY \<equiv> 26"
abbreviation (input) CHRIMSON_TRAINS_BEFORE_CHR2 :: nat where "CHRIMSON_TRAINS_BEFORE_CHR2 \<equiv> 27"
abbreviation (input) CHRIMSON_TRAINS_AFTER_CHR2 :: nat where "CHRIMSON_TRAINS_AFTER_CHR2 \<equiv> 28"
abbreviation (input) CHR2_NUM_TRAINS :: nat where "CHR2_NUM_TRAINS \<equiv> 29"

text \<open>
  The globals of the sketch. The fields \<open>ladder_phase\<close>, \<open>ladder_delayAfterPhase\<close> and
  \<open>ladder_delayStartTime\<close> are the \<^verbatim>\<open>static\<close> locals \<^verbatim>\<open>phase\<close>, \<^verbatim>\<open>delayAfterPhase\<close> and
  \<^verbatim>\<open>delayStartTime\<close> of \<^verbatim>\<open>opto_ladder_state\<close>, which hide the globals of the same names; the
  fields \<open>dan_phase\<close>, \<open>dan_delayAfterPhase\<close> and \<open>dan_delayStartTime\<close> are those of
  \<^verbatim>\<open>dan_tag_state\<close>, and \<open>chrimsonidx\<close> and \<open>chr2idx\<close> those of \<^verbatim>\<open>runChR2ChrimsonPulses\<close>.

  \<^verbatim>\<open>setChrimsonLED\<close> and \<^verbatim>\<open>setChR2LED\<close> read \<^verbatim>\<open>_params[CHRIMSON_AOUT_VALUE]\<close> and
  \<^verbatim>\<open>_params[CHR2_AOUT_VALUE]\<close>, two identifiers that the file does not declare. The two indices
  are therefore parameters of the machine: the fields \<open>CHRIMSON_AOUT_VALUE\<close> and
  \<open>CHR2_AOUT_VALUE\<close>, which no function assigns.
\<close>

record globals =
  state :: State
  prevState :: State
  command :: char
  arguments :: "int \<times> int"
  argcopy :: "int \<times> int"
  resultCode :: "ResultCode option"
  exp_timer :: int
  BOSS_CHRIMSON_stim_in_progress :: bool
  BOSS_CHR2_stim_in_progress :: bool
  UI_CHRIMSON_stim_in_progress :: bool
  UI_CHR2_stim_in_progress :: bool
  hold :: bool
  isParamsUpdateStarted :: bool
  isParamsUpdateDone :: bool
  ready_for_next_trial :: bool
  ready_for_cue :: bool
  photometry_toggle_timer :: int
  photometry_LED_enabled :: bool
  params :: "float list"
  out :: "event list"

record machine = globals +
  singleTrainMode :: bool
  pulseTimer :: millis
  inPulse :: bool
  pulseIndex :: int
  currentTrain :: int
  currentAout :: int
  ipiTimer :: millis
  chR2ipiTimer :: millis
  chrimsonLadder :: "float list"
  chr2Ladder :: "float list"
  dingdong :: bool
  ladder_phase :: int
  ladder_delayAfterPhase :: bool
  ladder_delayStartTime :: millis
  dan_phase :: int
  dan_delayAfterPhase :: bool
  dan_delayStartTime :: millis
  chrimsonidx :: int
  chr2idx :: int
  CHRIMSON_AOUT_VALUE :: nat
  CHR2_AOUT_VALUE :: nat

subsection \<open>Output primitives\<close>

definition sendMessage :: "msg \<Rightarrow> 'a globals_scheme \<Rightarrow> 'a globals_scheme" where
  "sendMessage s m = m\<lparr>out := out m @ [Send s]\<rparr>"

definition debugMessage :: "String.literal \<Rightarrow> 'a globals_scheme \<Rightarrow> 'a globals_scheme" where
  "debugMessage s m = (if params m ! DEBUG \<noteq> 0 then sendMessage (Debug s) m else m)"

definition digitalWrite :: "pin \<Rightarrow> bool \<Rightarrow> 'a globals_scheme \<Rightarrow> 'a globals_scheme" where
  "digitalWrite p v m = m\<lparr>out := out m @ [DigitalWrite p v]\<rparr>"

definition analogWrite :: "pin \<Rightarrow> int \<Rightarrow> 'a globals_scheme \<Rightarrow> 'a globals_scheme" where
  "analogWrite p v m = m\<lparr>out := out m @ [AnalogWrite p v]\<rparr>"

definition setAnalogOutput :: "int \<Rightarrow> int \<Rightarrow> 'a globals_scheme \<Rightarrow> 'a globals_scheme" where
  "setAnalogOutput channel v m =
     (if channel = 1 then analogWrite PIN_CHRIMSON_PWR v m
      else if channel = 2 then analogWrite PIN_CHR2_PWR v m
      else m)"

definition setChrimsonLED :: "bool \<Rightarrow> machine \<Rightarrow> machine" where
  "setChrimsonLED turnOn m =
     (if turnOn
      then digitalWrite PIN_CHRIMSON_STIM True
             (analogWrite PIN_CHRIMSON_PWR (float_to_int (params m ! CHRIMSON_AOUT_VALUE m)) m)
      else digitalWrite PIN_CHRIMSON_STIM False (analogWrite PIN_CHRIMSON_PWR 0 m))"

definition setChR2LED :: "bool \<Rightarrow> machine \<Rightarrow> machine" where
  "setChR2LED turnOn m =
     (if turnOn
      then digitalWrite PIN_CHR2_STIM True
             (analogWrite PIN_CHR2_PWR (float_to_int (params m ! CHR2_AOUT_VALUE m)) m)
      else digitalWrite PIN_CHR2_STIM False (analogWrite PIN_CHR2_PWR 0 m))"

definition setChrimsonReceipt :: "bool \<Rightarrow> 'a globals_scheme \<Rightarrow> 'a globals_scheme" where
  "setChrimsonReceipt turnOn m = digitalWrite PIN_CHRIMSON_RECEIPT turnOn m"

definition setChR2Receipt :: "bool \<Rightarrow> 'a globals_scheme \<Rightarrow> 'a globals_scheme" where
  "setChR2Receipt turnOn m = digitalWrite PIN_CHR2_RECEIPT turnOn m"

subsection \<open>The pulse and train engine\<close>

text \<open>
  \<^verbatim>\<open>runChrimsonTrain\<close> is three consecutive \<^verbatim>\<open>if\<close> statements, marked in the source as
  ``Start pulse'', ``End pulse'' and ``Train complete''. Each is one definition here, and the
  function is their composition in program order.
\<close>

definition chrimsonStartPulse :: "millis \<Rightarrow> machine \<Rightarrow> machine" where
  "chrimsonStartPulse now m =
     (if \<not> inPulse m \<and> of_int (pulseIndex m) < params m ! CHRIMSON_NUM_PULSES
         \<and> params m ! CHRIMSON_IPI \<le> elapsed now (ipiTimer m)
      then debugMessage (STR ''Chrimson Pulse ON'')
             ((setChrimsonLED True m)\<lparr>pulseTimer := now, inPulse := True\<rparr>)
      else m)"

definition chrimsonEndPulse :: "millis \<Rightarrow> machine \<Rightarrow> machine" where
  "chrimsonEndPulse now m =
     (if inPulse m \<and> params m ! CHRIMSON_PULSE_WIDTH \<le> elapsed now (pulseTimer m)
      then (debugMessage (STR ''Chrimson Pulse OFF'')
              ((setChrimsonLED False m)\<lparr>inPulse := False, ipiTimer := now\<rparr>))
             \<lparr>pulseIndex := pulseIndex m + 1\<rparr>
      else m)"

definition chrimsonSingleTrainResult :: "machine \<Rightarrow> machine" where
  "chrimsonSingleTrainResult m =
     (let m1 =
        (if UI_CHRIMSON_stim_in_progress m \<and> \<not> BOSS_CHRIMSON_stim_in_progress m
         then m\<lparr>resultCode := Some CODE_UI_CHRIMSON\<rparr>
         else if BOSS_CHRIMSON_stim_in_progress m \<and> \<not> UI_CHRIMSON_stim_in_progress m
         then m\<lparr>resultCode := Some CODE_CHRIMSON\<rparr>
         else sendMessage (Warning (STR ''Ambiguous stim source - defaulting to CHRIMSON''))
                (m\<lparr>resultCode := Some CODE_CHRIMSON\<rparr>));
          m2 = sendMessage (ResultMsg (the (resultCode m1))) m1
      in m2\<lparr>UI_CHRIMSON_stim_in_progress := False, BOSS_CHRIMSON_stim_in_progress := False,
            resultCode := None, state := WAIT_REQUEST_STATE, singleTrainMode := False\<rparr>)"

definition chrimsonTrainComplete :: "machine \<Rightarrow> machine" where
  "chrimsonTrainComplete m =
     (if params m ! CHRIMSON_NUM_PULSES \<le> of_int (pulseIndex m)
      then
        (let m1 = m\<lparr>pulseIndex := 0, currentTrain := currentTrain m + 1,
                     currentAout := constrain (currentTrain m + 1) 0 4\<rparr>;
             m2 = debugMessage (STR ''Exiting Chrimson Stim State.'')
                    (debugMessage (STR ''Completed Chrimson Train'') m1)
         in if singleTrainMode m2 then chrimsonSingleTrainResult m2 else m2)
      else m)"

definition runChrimsonTrain :: "millis \<Rightarrow> machine \<Rightarrow> machine" where
  "runChrimsonTrain now m =
     chrimsonTrainComplete (chrimsonEndPulse now (chrimsonStartPulse now m))"

definition chR2StartPulse :: "millis \<Rightarrow> machine \<Rightarrow> machine" where
  "chR2StartPulse now m =
     (if \<not> inPulse m \<and> of_int (pulseIndex m) < params m ! CHR2_NUM_PULSES
         \<and> params m ! CHR2_IPI \<le> elapsed now (chR2ipiTimer m)
      then debugMessage (STR ''ChR2 Pulse ON'')
             ((setChR2LED True m)\<lparr>pulseTimer := now, inPulse := True\<rparr>)
      else m)"

definition chR2EndPulse :: "millis \<Rightarrow> machine \<Rightarrow> machine" where
  "chR2EndPulse now m =
     (if inPulse m \<and> params m ! CHR2_PULSE_WIDTH \<le> elapsed now (pulseTimer m)
      then (debugMessage (STR ''ChR2 Pulse OFF'')
              ((setChR2LED False m)\<lparr>inPulse := False, chR2ipiTimer := now\<rparr>))
             \<lparr>pulseIndex := pulseIndex m + 1\<rparr>
      else m)"

definition chR2SingleTrainResult :: "machine \<Rightarrow> machine" where
  "chR2SingleTrainResult m =
     (let m1 =
        (if UI_CHR2_stim_in_progress m \<and> \<not> BOSS_CHR2_stim_in_progress m
         then m\<lparr>resultCode := Some CODE_UI_CHR2\<rparr>
         else if BOSS_CHR2_stim_in_progress m \<and> \<not> UI_CHR2_stim_in_progress m
         then m\<lparr>resultCode := Some CODE_CHR2\<rparr>
         else sendMessage (Warning (STR ''Ambiguous ChR2 stim source - defaulting to CHR2''))
                (m\<lparr>resultCode := Some CODE_CHR2\<rparr>));
          m2 = sendMessage (ResultMsg (the (resultCode m1))) m1
      in m2\<lparr>UI_CHR2_stim_in_progress := False, BOSS_CHR2_stim_in_progress := False,
            resultCode := None, state := WAIT_REQUEST_STATE, singleTrainMode := False\<rparr>)"

definition chR2TrainComplete :: "machine \<Rightarrow> machine" where
  "chR2TrainComplete m =
     (if params m ! CHR2_NUM_PULSES \<le> of_int (pulseIndex m)
      then
        (let m1 = m\<lparr>pulseIndex := 0, currentTrain := currentTrain m + 1\<rparr>;
             m2 = debugMessage (STR ''Completed ChR2 Train'') m1
         in if singleTrainMode m2 then chR2SingleTrainResult m2 else m2)
      else m)"

definition runChR2Train :: "millis \<Rightarrow> machine \<Rightarrow> machine" where
  "runChR2Train now m = chR2TrainComplete (chR2EndPulse now (chR2StartPulse now m))"

definition stimulateChrimson :: "machine \<Rightarrow> machine" where
  "stimulateChrimson m =
     debugMessage (STR ''Starting CHRIMSON stimulation.'')
       (m\<lparr>currentTrain := 0, pulseIndex := 0, inPulse := False, currentAout := 0,
          singleTrainMode := True\<rparr>)"

definition stimulateChR2 :: "machine \<Rightarrow> machine" where
  "stimulateChR2 m =
     debugMessage (STR ''Starting CHR2 stimulation.'')
       (m\<lparr>currentTrain := 0, pulseIndex := 0, inPulse := False, singleTrainMode := True\<rparr>)"

subsection \<open>Checks shared by the state functions\<close>

definition checkQuit :: "'a globals_scheme \<Rightarrow> bool \<times> 'a globals_scheme" where
  "checkQuit m =
     (if command m = CHR ''Q'' then (True, m\<lparr>state := IDLE_STATE\<rparr>) else (False, m))"

text \<open>The assignment \<^verbatim>\<open>_params[id] = value\<close> with an index received from the host, guarded
  by the size of the array, which is the length of the list \<open>params\<close> (\<^verbatim>\<open>_NUM_PARAMS\<close>).\<close>

definition params_write :: "int \<Rightarrow> float \<Rightarrow> 'a globals_scheme \<Rightarrow> error + 'a globals_scheme" where
  "params_write ident v m =
     (if 0 \<le> ident \<and> ident < int (length (params m))
      then Inr (m\<lparr>params := (params m)[nat ident := v]\<rparr>)
      else Inl OutOfBounds)"

definition checkParamUpdate :: "'a globals_scheme \<Rightarrow> error + bool \<times> 'a globals_scheme" where
  "checkParamUpdate m =
     (if command m = CHR ''P''
      then
        (let m1 = m\<lparr>argcopy := arguments m, isParamsUpdateStarted := True,
                     isParamsUpdateDone := False\<rparr>
         in case params_write (fst (arguments m1)) (of_int (snd (arguments m1))) m1 of
              Inl e \<Rightarrow> Inl e
            | Inr m2 \<Rightarrow>
                Inr (True, debugMessage (STR ''Parameter changed'')
                             (m2\<lparr>state := UPDATE_PARAMS_STATE\<rparr>)))
      else Inr (False, m))"

definition checkUpdateComplete :: "'a globals_scheme \<Rightarrow> bool \<times> 'a globals_scheme" where
  "checkUpdateComplete m =
     (if command m = CHR ''O''
      then (True, debugMessage (STR ''Parameter update complete.'')
                    (m\<lparr>isParamsUpdateStarted := False, isParamsUpdateDone := True,
                       state := prevState m, hold := False\<rparr>))
      else (False, m))"

definition checkWarnings :: "millis \<Rightarrow> 'a globals_scheme \<Rightarrow> 'a globals_scheme" where
  "checkWarnings now m =
     (if BOSS_CHRIMSON_stim_in_progress m \<or> UI_CHRIMSON_stim_in_progress m
      then sendMessage (EventMsg EVENT_CHRIMSON_ERROR (signedMillis now - exp_timer m))
             (sendMessage
                (Warning (STR ''Updated params during ongoing Chrimson stimulation'')) m)
      else m)"

definition checkTrialStart :: "inputs \<Rightarrow> 'a globals_scheme \<Rightarrow> 'a globals_scheme" where
  "checkTrialStart inp m =
     (if ready_for_next_trial m \<and> \<not> pin_TRIAL_INIT inp
      then sendMessage (EventMsg EVENT_TRIAL_INIT (signedMillis (millis_now inp) - exp_timer m))
             (m\<lparr>ready_for_next_trial := False, ready_for_cue := True\<rparr>)
      else if \<not> ready_for_next_trial m \<and> pin_TRIAL_INIT inp
      then m\<lparr>ready_for_next_trial := True\<rparr>
      else m)"

definition checkReferenceEvent :: "inputs \<Rightarrow> 'a globals_scheme \<Rightarrow> 'a globals_scheme" where
  "checkReferenceEvent inp m =
     (if ready_for_cue m \<and> pin_CUE_ON inp
      then (sendMessage (EventMsg EVENT_CUE_ON (signedMillis (millis_now inp) - exp_timer m)) m)
             \<lparr>ready_for_cue := False\<rparr>
      else m)"

definition setPhotometryLED :: "millis \<Rightarrow> bool \<Rightarrow> bool \<Rightarrow> machine \<Rightarrow> machine" where
  "setPhotometryLED now turnOn isParamChange m =
     (if isParamChange
         \<and> of_int (signedMillis now - photometry_toggle_timer m) < params m ! PHOT_TOGGLE_DELAY
      then m
      else if turnOn
      then (digitalWrite PIN_PHOTOMETRY_LED True m)\<lparr>photometry_LED_enabled := True\<rparr>
      else (digitalWrite PIN_PHOTOMETRY_LED False m)\<lparr>photometry_LED_enabled := False\<rparr>)"

definition checkPhotometryLED :: "millis \<Rightarrow> machine \<Rightarrow> machine" where
  "checkPhotometryLED now m =
     (if command m = CHR ''Y''
      then
        (let m1 = debugMessage (STR ''Received command to toggle LEDs.'') m;
             m2 = (if params m1 ! PHOTOMETRY_ON = 1
                   then debugMessage (STR ''New PHOTOMETRY_ON should be 0.'')
                          (m1\<lparr>params := (params m1)[PHOTOMETRY_ON := 0]\<rparr>)
                   else debugMessage (STR ''New PHOTOMETRY_ON should be 1.'')
                          (m1\<lparr>params := (params m1)[PHOTOMETRY_ON := 1]\<rparr>));
             m3 = sendMessage (ParamMsg PHOTOMETRY_ON (params m2 ! PHOTOMETRY_ON)) m2
         in debugMessage (STR ''Parameter changed'') m3)
      else setPhotometryLED now (params m ! PHOTOMETRY_ON = 1) True m)"

definition handleAnalogOutput :: "'a globals_scheme \<Rightarrow> 'a globals_scheme" where
  "handleAnalogOutput m =
     (if command m = CHR ''A''
      then setAnalogOutput (fst (arguments m)) (snd (arguments m)) m
      else m)"

definition checkChrimsonRequest :: "inputs \<Rightarrow> machine \<Rightarrow> bool \<times> machine" where
  "checkChrimsonRequest inp m =
     (if pin_CHRIMSON_TRIGGER inp
      then
        (let m1 = debugMessage (STR ''Received CHRIMSON request from BOSS arduino.'') m;
             m2 = sendMessage (EventMsg EVENT_BOSS_CHRIMSON_REQUEST
                                 (signedMillis (millis_now inp) - exp_timer m1)) m1;
             m3 = stimulateChrimson (m2\<lparr>UI_CHRIMSON_stim_in_progress := False,
                                         BOSS_CHRIMSON_stim_in_progress := True\<rparr>)
         in (True, setChrimsonReceipt True (m3\<lparr>state := CHRIMSON_STIM_STATE\<rparr>)))
      else if command m = CHR ''C''
      then
        (let m1 = debugMessage (STR ''Received CHRIMSON request from HOST.'') m;
             m2 = sendMessage (EventMsg EVENT_UI_CHRIMSON_REQUEST
                                 (signedMillis (millis_now inp) - exp_timer m1)) m1;
             m3 = stimulateChrimson (m2\<lparr>UI_CHRIMSON_stim_in_progress := True,
                                         BOSS_CHRIMSON_stim_in_progress := False\<rparr>);
             m4 = debugMessage (STR ''Killed HOST request with R message.'')
                    (sendMessage ReceiptMsg m3)
         in (True, setChrimsonReceipt True
                     (m4\<lparr>command := CHR '' '', state := CHRIMSON_STIM_STATE\<rparr>)))
      else (False, m))"

definition checkChr2Request :: "inputs \<Rightarrow> machine \<Rightarrow> bool \<times> machine" where
  "checkChr2Request inp m =
     (if command m = CHR ''D''
      then
        (let m1 = debugMessage (STR ''Received CHR2 request from HOST.'') m;
             m2 = sendMessage (EventMsg EVENT_UI_CHR2_REQUEST
                                 (signedMillis (millis_now inp) - exp_timer m1)) m1;
             m3 = setChR2Receipt True (m2\<lparr>UI_CHR2_stim_in_progress := True,
                                          BOSS_CHR2_stim_in_progress := False\<rparr>);
             m4 = stimulateChR2 m3;
             m5 = debugMessage (STR ''Killed HOST request with R message.'')
                    (sendMessage ReceiptMsg m4)
         in (True, m5\<lparr>command := CHR '' '', state := CHR2_STIM_STATE\<rparr>))
      else (False, m))"

definition checkStimChrimson :: "millis \<Rightarrow> machine \<Rightarrow> machine" where
  "checkStimChrimson now m =
     (let m1 = runChrimsonTrain now m
      in if 1 \<le> currentTrain m1
         then m1\<lparr>currentTrain := 0, pulseIndex := 0, state := WAIT_REQUEST_STATE\<rparr>
         else m1)"

definition checkStimChR2 :: "millis \<Rightarrow> machine \<Rightarrow> machine" where
  "checkStimChR2 now m =
     (let m1 = runChR2Train now m
      in if 1 \<le> currentTrain m1
         then m1\<lparr>currentTrain := 0, pulseIndex := 0, state := WAIT_REQUEST_STATE\<rparr>
         else m1)"

subsection \<open>The state functions\<close>

text \<open>
  Every state function starts with its entry action, the block under
  \<^verbatim>\<open>if (_state != _prevState)\<close> (``ACTION LIST''), followed by its transitions (``TRANSITION
  LIST''). The entry action is a definition of its own, named \<open>\<dots>_entry\<close>.
\<close>

definition idle_entry :: "machine \<Rightarrow> machine" where
  "idle_entry m =
     (if state m \<noteq> prevState m
      then
        (let a = sendMessage (Text (STR ''Version Code: PULSE_MODE_MAY_2025''))
                   (sendMessage (Text (STR ''Optogenetics_Controller4''))
                      (sendMessage (Text (STR ''-'')) m));
             b = sendMessage (StateMsg (state a)) (a\<lparr>prevState := state a\<rparr>);
             c = setChR2LED False (setChrimsonLED False
                   (setAnalogOutput 2 0 (setAnalogOutput 1 0
                      (setChR2Receipt False (setChrimsonReceipt False b)))))
         in debugMessage (STR ''Idle.'') (c\<lparr>resultCode := None\<rparr>))
      else m)"

definition idle_state :: "inputs \<Rightarrow> machine \<Rightarrow> error + machine" where
  "idle_state inp m =
     (let m1 = idle_entry m
      in if command m1 = CHR ''G'' then Inr (m1\<lparr>state := INIT_EXP\<rparr>)
         else if command m1 = CHR ''C'' then Inr (m1\<lparr>state := CHRIMSON_STIM_STATE\<rparr>)
         else if command m1 = CHR ''D'' then Inr (m1\<lparr>state := CHR2_STIM_STATE\<rparr>)
         else if command m1 = CHR ''L'' then Inr (m1\<lparr>state := OPTO_LADDER_STATE\<rparr>)
         else if command m1 = CHR ''M'' then Inr (m1\<lparr>state := DAN_TAG_STATE\<rparr>)
         else
           (case checkParamUpdate (checkPhotometryLED (millis_now inp) m1) of
              Inl e \<Rightarrow> Inl e
            | Inr (True, m2) \<Rightarrow> Inr m2
            | Inr (False, m2) \<Rightarrow> Inr (m2\<lparr>state := IDLE_STATE\<rparr>)))"

definition init_exp :: "inputs \<Rightarrow> 'a globals_scheme \<Rightarrow> 'a globals_scheme" where
  "init_exp inp m =
     (if state m \<noteq> prevState m
      then
        (let m1 = m\<lparr>exp_timer := signedMillis (millis_now inp)\<rparr>;
             m2 = sendMessage (EventMsg EVENT_EXP_INIT
                                 (signedMillis (millis_now inp) - exp_timer m1)) m1;
             m3 = sendMessage (StateMsg (state m2)) (m2\<lparr>prevState := state m2\<rparr>);
             m4 = debugMessage (STR ''Experiment Started.'') m3
         in m4\<lparr>state := WAIT_REQUEST_STATE\<rparr>)
      else m)"

definition state_entry :: "String.literal \<Rightarrow> 'a globals_scheme \<Rightarrow> 'a globals_scheme" where
  "state_entry text m =
     (if state m \<noteq> prevState m
      then debugMessage text (sendMessage (StateMsg (state m)) (m\<lparr>prevState := state m\<rparr>))
      else m)"

definition wait_request_entry :: "'a globals_scheme \<Rightarrow> 'a globals_scheme" where
  "wait_request_entry m = state_entry (STR ''Awaiting command from BOSS arduino.'') m"

definition Chrimson_stim_entry :: "'a globals_scheme \<Rightarrow> 'a globals_scheme" where
  "Chrimson_stim_entry m =
     state_entry (STR ''Stimulating CHRIMSON and sending receipt to BOSS arduino.'') m"

definition Chr2_stim_entry :: "'a globals_scheme \<Rightarrow> 'a globals_scheme" where
  "Chr2_stim_entry m =
     state_entry (STR ''Stimulating CHR2 and sending receipt to BOSS arduino.'') m"

definition wait_request_state :: "inputs \<Rightarrow> machine \<Rightarrow> error + machine" where
  "wait_request_state inp m =
     (case checkQuit (wait_request_entry m) of
        (True, m2) \<Rightarrow> Inr m2
      | (False, m2) \<Rightarrow>
          (case checkParamUpdate (checkReferenceEvent inp (checkTrialStart inp m2)) of
             Inl e \<Rightarrow> Inl e
           | Inr (True, m3) \<Rightarrow> Inr m3
           | Inr (False, m3) \<Rightarrow>
               (case checkChrimsonRequest inp m3 of
                  (True, m4) \<Rightarrow> Inr m4
                | (False, m4) \<Rightarrow>
                    (case checkChr2Request inp m4 of
                       (True, m5) \<Rightarrow> Inr m5
                     | (False, m5) \<Rightarrow>
                         (let m6 = checkPhotometryLED (millis_now inp) m5
                          in if command m6 = CHR ''L''
                             then Inr (m6\<lparr>state := OPTO_LADDER_STATE\<rparr>)
                             else Inr (m6\<lparr>state := WAIT_REQUEST_STATE\<rparr>))))))"

definition Chrimson_stim_state :: "inputs \<Rightarrow> machine \<Rightarrow> machine" where
  "Chrimson_stim_state inp m =
     (case checkQuit (Chrimson_stim_entry m) of
        (True, m2) \<Rightarrow> m2
      | (False, m2) \<Rightarrow>
          (case checkChrimsonRequest inp (checkStimChrimson (millis_now inp) m2) of
             (True, m3) \<Rightarrow> m3
           | (False, m3) \<Rightarrow> checkPhotometryLED (millis_now inp) m3))"

definition Chr2_stim_state :: "inputs \<Rightarrow> machine \<Rightarrow> machine" where
  "Chr2_stim_state inp m =
     (case checkQuit (Chr2_stim_entry m) of
        (True, m2) \<Rightarrow> m2
      | (False, m2) \<Rightarrow>
          (case checkChr2Request inp (checkStimChR2 (millis_now inp) m2) of
             (True, m3) \<Rightarrow> m3
           | (False, m3) \<Rightarrow> checkPhotometryLED (millis_now inp) m3))"

text \<open>The entry action of \<^verbatim>\<open>update_params_state\<close>, the block under \<^verbatim>\<open>if (_hold != true)\<close>, and
  the function.\<close>

definition update_params_entry :: "machine \<Rightarrow> error + machine" where
  "update_params_entry m =
     (case params_write (fst (argcopy m)) (of_int (snd (argcopy m)))
             ((sendMessage (StateMsg (state m)) m)\<lparr>hold := True\<rparr>) of
        Inl e \<Rightarrow> Inl e
      | Inr a \<Rightarrow> Inr (debugMessage (STR ''Parameter updated'') a))"

definition update_params_state :: "machine \<Rightarrow> error + machine" where
  "update_params_state m =
     (case (if \<not> hold m then update_params_entry m else Inr m) of
        Inl e \<Rightarrow> Inl e
      | Inr m1 \<Rightarrow>
          (let m2 =
             (if command m1 = CHR ''O''
              then debugMessage (STR ''Parameter update complete.'')
                     (m1\<lparr>isParamsUpdateStarted := False, isParamsUpdateDone := True,
                         state := prevState m1, hold := False\<rparr>)
              else m1)
           in case checkQuit m2 of
                (True, m3) \<Rightarrow> Inr m3
              | (False, m3) \<Rightarrow>
                  (case checkUpdateComplete m3 of
                     (True, m4) \<Rightarrow> Inr m4
                   | (False, m4) \<Rightarrow> Inr (m4\<lparr>state := UPDATE_PARAMS_STATE\<rparr>))))"

text \<open>The three phases of the ladder are the three cases of the \<^verbatim>\<open>switch (phase)\<close>; a value of
  \<^verbatim>\<open>phase\<close> other than 0, 1 and 2 matches no case. Phases 0 and 1 end with the same statements
  up to the debug text (\<open>ladder_delay\<close>).\<close>

definition opto_ladder_entry :: "machine \<Rightarrow> machine" where
  "opto_ladder_entry m =
     (if state m \<noteq> prevState m
      then debugMessage (STR ''Performing OptoLadder Experiment.'')
             ((sendMessage (StateMsg (state m)) (m\<lparr>prevState := state m\<rparr>))
                \<lparr>pulseIndex := 0, currentTrain := 0, currentAout := 0, inPulse := False,
                 ladder_phase := 0, ladder_delayAfterPhase := False,
                 chrimsonLadder :=
                   [params m ! CHRIMSON_AOUT_1_VALUE, params m ! CHRIMSON_AOUT_2_VALUE,
                    params m ! CHRIMSON_AOUT_3_VALUE, params m ! CHRIMSON_AOUT_4_VALUE,
                    params m ! CHRIMSON_AOUT_5_VALUE]\<rparr>)
      else m)"

text \<open>The statements that follow a completed phase 0 or 1: start the delay, or, once the delay
  has run, go to the next phase.\<close>

definition ladder_delay :: "String.literal \<Rightarrow> millis \<Rightarrow> machine \<Rightarrow> machine" where
  "ladder_delay text now m =
     (if \<not> ladder_delayAfterPhase m
      then debugMessage text (m\<lparr>ladder_delayStartTime := now, ladder_delayAfterPhase := True\<rparr>)
      else if params m ! STIM_TRAIN_DELAY \<le> elapsed now (ladder_delayStartTime m)
      then m\<lparr>ladder_phase := ladder_phase m + 1, currentTrain := 0, pulseIndex := 0,
              ladder_delayAfterPhase := False\<rparr>
      else m)"

definition ladder_complete :: "machine \<Rightarrow> machine" where
  "ladder_complete m =
     (let m1 = debugMessage (STR ''Optotagging complete.'') (sendMessage ReceiptMsg m);
          m2 = m1\<lparr>state := WAIT_REQUEST_STATE, resultCode := Some CODE_OPTOTAG\<rparr>
      in debugMessage (STR ''Moving to WAIT_REQUEST_STATE'')
           (sendMessage (ResultMsg CODE_OPTOTAG) m2))"

definition opto_ladder_state :: "inputs \<Rightarrow> machine \<Rightarrow> machine" where
  "opto_ladder_state inp m =
     (let now = millis_now inp; m1 = opto_ladder_entry m
      in if ladder_phase m1 = 0
         then
           (if of_int (currentTrain m1) < params m1 ! CHRIMSON_TRAINS_BEFORE_CHR2
            then runChrimsonTrain now m1
            else ladder_delay (STR ''Phase 0 complete. Delay before Phase 1.'') now m1)
         else if ladder_phase m1 = 1
         then
           (if of_int (currentTrain m1) < params m1 ! CHR2_NUM_TRAINS
            then runChR2Train now m1
            else ladder_delay (STR ''Phase 1 complete. Delay before Phase 2.'') now m1)
         else if ladder_phase m1 = 2
         then
           (if of_int (currentTrain m1) < params m1 ! CHRIMSON_TRAINS_AFTER_CHR2
            then runChrimsonTrain now m1
            else ladder_complete m1)
         else m1)"

text \<open>
  The arrays \<^verbatim>\<open>chrimsonLadder\<close> and \<^verbatim>\<open>chr2Ladder\<close> are declared with five elements. A read at
  an index computed at run time is guarded. The entry action of \<^verbatim>\<open>dan_tag_state\<close> assigns
  \<^verbatim>\<open>chrimsonLadder[5]\<close> and \<^verbatim>\<open>chr2Ladder[5]\<close>, one element past the end, so that entering the
  state is the error \<open>OutOfBounds\<close>.
\<close>

definition ladder_read :: "float list \<Rightarrow> int \<Rightarrow> error + float" where
  "ladder_read xs i = (if 0 \<le> i \<and> i < 5 then Inr (xs ! nat i) else Inl OutOfBounds)"

definition runChR2ChrimsonPulses :: "millis \<Rightarrow> machine \<Rightarrow> error + machine" where
  "runChR2ChrimsonPulses now m =
     (let m0 = m\<lparr>chrimsonidx := (if 6 \<le> chrimsonidx m then 0 else chrimsonidx m),
                  chr2idx := (if 6 \<le> chr2idx m then 0 else chr2idx m)\<rparr>
      in case
           (if \<not> inPulse m0 \<and> of_int (pulseIndex m0) < params m0 ! CHRIMSON_CHR2_NUM_PULSES
               \<and> params m0 ! CHRIMSON_CHR2_IPI \<le> elapsed now (ipiTimer m0)
            then
              (case (if dingdong m0
                     then (case ladder_read (chrimsonLadder m0) (chrimsonidx m0) of
                             Inl e \<Rightarrow> Inl e
                           | Inr v \<Rightarrow>
                               Inr ((setAnalogOutput 1 (float_to_int v) m0)
                                      \<lparr>chrimsonidx := chrimsonidx m0 + 1, dingdong := False\<rparr>))
                     else (case ladder_read (chr2Ladder m0) (chr2idx m0) of
                             Inl e \<Rightarrow> Inl e
                           | Inr v \<Rightarrow>
                               Inr ((setAnalogOutput 2 (float_to_int v) m0)
                                      \<lparr>chr2idx := chr2idx m0 + 1, dingdong := True\<rparr>))) of
                 Inl e \<Rightarrow> Inl e
               | Inr a \<Rightarrow>
                   Inr (debugMessage (STR ''Chrimson/ChR2 Pulse ON'')
                          (a\<lparr>pulseTimer := now, inPulse := True\<rparr>)))
            else Inr m0) of
           Inl e \<Rightarrow> Inl e
         | Inr m1 \<Rightarrow>
             (let m2 =
                (if inPulse m1
                    \<and> params m1 ! CHRIMSON_CHR2_PULSE_WIDTH \<le> elapsed now (pulseTimer m1)
                 then (debugMessage (STR ''Chrimson/ChR2 Pulse OFF'')
                         ((setChR2LED False (setChrimsonLED False m1))
                            \<lparr>inPulse := False, ipiTimer := now\<rparr>))
                        \<lparr>pulseIndex := pulseIndex m1 + 1\<rparr>
                 else m1)
              in if params m2 ! CHRIMSON_CHR2_NUM_PULSES \<le> of_int (pulseIndex m2)
                 then
                   (let m3 = m2\<lparr>pulseIndex := 0,
                                currentAout := constrain (currentTrain m2) 0 4\<rparr>;
                        m4 = debugMessage (STR ''Exiting Chrimson ChR2 Stim State.'')
                               (debugMessage (STR ''Completed Chrimson ChR2 pulses'') m3)
                    in Inr (if singleTrainMode m4 then chrimsonSingleTrainResult m4 else m4))
                 else Inr m2))"

definition dan_tag_state :: "inputs \<Rightarrow> machine \<Rightarrow> error + machine" where
  "dan_tag_state inp m =
     (if state m \<noteq> prevState m
      then Inl OutOfBounds
      else if of_int (pulseIndex m) < params m ! CHRIMSON_CHR2_NUM_PULSES
      then runChR2ChrimsonPulses (millis_now inp) m
      else if \<not> dan_delayAfterPhase m
      then Inr (debugMessage (STR ''Phase 1 complete. Delay before Phase 2.'')
                  (m\<lparr>dan_delayStartTime := millis_now inp, dan_delayAfterPhase := True\<rparr>))
      else if params m ! STIM_TRAIN_DELAY \<le> elapsed (millis_now inp) (dan_delayStartTime m)
      then Inr (m\<lparr>dan_phase := dan_phase m + 1, pulseIndex := 0,
                   dan_delayAfterPhase := False\<rparr>)
      else Inr m)"

subsection \<open>The main loop\<close>

text \<open>\<^verbatim>\<open>hostInit\<close> sends the enumerations of states, event markers, parameters and result codes,
  then the online marker. The enumerations are one message here.\<close>

definition hostInit :: "'a globals_scheme \<Rightarrow> 'a globals_scheme" where
  "hostInit m = sendMessage Online (sendMessage Enumerations m)"

definition mySetup :: "machine \<Rightarrow> machine" where
  "mySetup m =
     (let m1 = setChR2Receipt False (setChR2LED False
                 (setChrimsonReceipt False (setChrimsonLED False m)));
          m2 = m1\<lparr>state := INIT, prevState := INIT, command := CHR '' '', arguments := (0, 0),
                  resultCode := None, exp_timer := 0, photometry_toggle_timer := 0\<rparr>;
          m3 = debugMessage (STR ''Initial CHRIMSON pulse width and IPI'') m2
      in hostInit
           (m3\<lparr>photometry_LED_enabled := True, BOSS_CHRIMSON_stim_in_progress := False,
               UI_CHRIMSON_stim_in_progress := False, hold := False,
               isParamsUpdateStarted := False, isParamsUpdateDone := True,
               ready_for_next_trial := True, ready_for_cue := True\<rparr>))"

text \<open>
  One pass of the \<^verbatim>\<open>while (true)\<close> loop of \<^verbatim>\<open>loop()\<close>. The host message, when one is completed
  in this pass, is already decoded into its command character and two integers; otherwise
  the command is a space and both arguments are 0. The command \<^verbatim>\<open>R\<close> leaves the loop, so that
  \<^verbatim>\<open>loop()\<close> returns and is entered again, which runs \<^verbatim>\<open>mySetup\<close>.
\<close>

definition readHostMessage :: "inputs \<Rightarrow> 'a globals_scheme \<Rightarrow> 'a globals_scheme" where
  "readHostMessage inp m =
     (case host_message inp of
        None \<Rightarrow> m\<lparr>command := CHR '' '', arguments := (0, 0)\<rparr>
      | Some (c, a0, a1) \<Rightarrow> m\<lparr>command := c, arguments := (a0, a1)\<rparr>)"

definition loop_step :: "inputs \<Rightarrow> machine \<Rightarrow> error + machine" where
  "loop_step inp m =
     (let m1 = readHostMessage inp m
      in if command m1 = CHR ''R'' then Inr (mySetup m1)
         else
           (let m2 = handleAnalogOutput m1
            in case state m2 of
                 INIT \<Rightarrow> idle_state inp m2
               | IDLE_STATE \<Rightarrow> idle_state inp m2
               | INIT_EXP \<Rightarrow> Inr (init_exp inp m2)
               | WAIT_REQUEST_STATE \<Rightarrow> wait_request_state inp m2
               | CHRIMSON_STIM_STATE \<Rightarrow> Inr (Chrimson_stim_state inp m2)
               | CHR2_STIM_STATE \<Rightarrow> Inr (Chr2_stim_state inp m2)
               | OPTO_LADDER_STATE \<Rightarrow> Inr (opto_ladder_state inp m2)
               | DAN_TAG_STATE \<Rightarrow> dan_tag_state inp m2
               | UPDATE_PARAMS_STATE \<Rightarrow> update_params_state m2))"

text \<open>A run of the loop over a list of inputs, one per pass; it stops at the first error.\<close>

fun run :: "inputs list \<Rightarrow> machine \<Rightarrow> error + machine" where
  "run [] m = Inr m"
| "run (i # is) m = (case loop_step i m of Inl e \<Rightarrow> Inl e | Inr m' \<Rightarrow> run is m')"

text \<open>The globals as their initialisers leave them, for given indices \<open>a\<close> and \<open>b\<close> for the two
  undeclared identifiers, and the machine after the first \<^verbatim>\<open>mySetup\<close>.\<close>

definition default_params :: "float list" where
  "default_params =
     [1, 1, 1,  5, 10, 100,  5, 5, 35,  200, 10, 3000,
      100, 200, 400, 800, 1600, 2000,  100, 200, 400, 800, 1600, 2000,
      1000, 0, 1000,  2, 2, 1]"

definition power_on :: "nat \<Rightarrow> nat \<Rightarrow> machine" where
  "power_on a b =
     \<lparr>state = INIT, prevState = INIT, command = CHR '' '', arguments = (0, 0), argcopy = (0, 0),
      resultCode = None, exp_timer = 0,
      BOSS_CHRIMSON_stim_in_progress = False, BOSS_CHR2_stim_in_progress = False,
      UI_CHRIMSON_stim_in_progress = False, UI_CHR2_stim_in_progress = False,
      hold = False, isParamsUpdateStarted = False, isParamsUpdateDone = True,
      ready_for_next_trial = True, ready_for_cue = True, photometry_toggle_timer = 0,
      photometry_LED_enabled = True, params = default_params, out = [],
      singleTrainMode = False, pulseTimer = 0, inPulse = False, pulseIndex = 0,
      currentTrain = 0, currentAout = 0, ipiTimer = 0, chR2ipiTimer = 0,
      chrimsonLadder = [0, 0, 0, 0, 0], chr2Ladder = [0, 0, 0, 0, 0], dingdong = False,
      ladder_phase = 0, ladder_delayAfterPhase = False, ladder_delayStartTime = 0,
      dan_phase = 0, dan_delayAfterPhase = False, dan_delayStartTime = 0,
      chrimsonidx = 0, chr2idx = 0,
      CHRIMSON_AOUT_VALUE = a, CHR2_AOUT_VALUE = b\<rparr>"

definition booted :: machine where
  "booted = mySetup (power_on CHRIMSON_AOUT_1_VALUE CHR2_AOUT_1_VALUE)"

section \<open>The NH variant\<close>

subsection \<open>Parameters and global variables\<close>

abbreviation (input) CHRIMSON_FREQUENCY :: nat where "CHRIMSON_FREQUENCY \<equiv> 3"
abbreviation (input) CHRIMSON_PERIOD :: nat where "CHRIMSON_PERIOD \<equiv> 4"
abbreviation (input) CHRIMSON_DURATION :: nat where "CHRIMSON_DURATION \<equiv> 5"
abbreviation (input) CHRIMSON_DUTY_CYCLE :: nat where "CHRIMSON_DUTY_CYCLE \<equiv> 6"
abbreviation (input) CHRIMSON_UP_TIME :: nat where "CHRIMSON_UP_TIME \<equiv> 7"
abbreviation (input) CHRIMSON_DOWN_TIME :: nat where "CHRIMSON_DOWN_TIME \<equiv> 8"
abbreviation (input) CHR2_FREQUENCY :: nat where "CHR2_FREQUENCY \<equiv> 9"
abbreviation (input) CHR2_PERIOD :: nat where "CHR2_PERIOD \<equiv> 10"
abbreviation (input) CHR2_DURATION :: nat where "CHR2_DURATION \<equiv> 11"
abbreviation (input) CHR2_DUTY_CYCLE :: nat where "CHR2_DUTY_CYCLE \<equiv> 12"
abbreviation (input) CHR2_UP_TIME :: nat where "CHR2_UP_TIME \<equiv> 13"
abbreviation (input) CHR2_DOWN_TIME :: nat where "CHR2_DOWN_TIME \<equiv> 14"
abbreviation (input) UI_CHRIMSON_FREQUENCY :: nat where "UI_CHRIMSON_FREQUENCY \<equiv> 15"
abbreviation (input) UI_CHRIMSON_PERIOD :: nat where "UI_CHRIMSON_PERIOD \<equiv> 16"
abbreviation (input) UI_CHRIMSON_DURATION :: nat where "UI_CHRIMSON_DURATION \<equiv> 17"
abbreviation (input) UI_CHRIMSON_DUTY_CYCLE :: nat where "UI_CHRIMSON_DUTY_CYCLE \<equiv> 18"
abbreviation (input) UI_CHRIMSON_UP_TIME :: nat where "UI_CHRIMSON_UP_TIME \<equiv> 19"
abbreviation (input) UI_CHRIMSON_DOWN_TIME :: nat where "UI_CHRIMSON_DOWN_TIME \<equiv> 20"
abbreviation (input) UI_CHR2_FREQUENCY :: nat where "UI_CHR2_FREQUENCY \<equiv> 21"
abbreviation (input) UI_CHR2_PERIOD :: nat where "UI_CHR2_PERIOD \<equiv> 22"
abbreviation (input) UI_CHR2_DURATION :: nat where "UI_CHR2_DURATION \<equiv> 23"
abbreviation (input) UI_CHR2_DUTY_CYCLE :: nat where "UI_CHR2_DUTY_CYCLE \<equiv> 24"
abbreviation (input) UI_CHR2_UP_TIME :: nat where "UI_CHR2_UP_TIME \<equiv> 25"
abbreviation (input) UI_CHR2_DOWN_TIME :: nat where "UI_CHR2_DOWN_TIME \<equiv> 26"
abbreviation (input) CHRIMSON_AOUT_1_VALUE_NH :: nat where "CHRIMSON_AOUT_1_VALUE_NH \<equiv> 27"
abbreviation (input) CHR2_AOUT_VALUE_NH :: nat where "CHR2_AOUT_VALUE_NH \<equiv> 32"
abbreviation (input) STIM_TRAIN_DELAY_NH :: nat where "STIM_TRAIN_DELAY_NH \<equiv> 33"
abbreviation (input) PHOTOMETRY_ON_NH :: nat where "PHOTOMETRY_ON_NH \<equiv> 34"
abbreviation (input) PHOT_TOGGLE_DELAY_NH :: nat where "PHOT_TOGGLE_DELAY_NH \<equiv> 35"
abbreviation (input) CHRIMSON_TRAINS_BEFORE_CHR2_NH :: nat where "CHRIMSON_TRAINS_BEFORE_CHR2_NH \<equiv> 36"
abbreviation (input) CHRIMSON_TRAINS_AFTER_CHR2_NH :: nat where "CHRIMSON_TRAINS_AFTER_CHR2_NH \<equiv> 37"
abbreviation (input) CHR2_NUM_TRAINS_NH :: nat where "CHR2_NUM_TRAINS_NH \<equiv> 38"
abbreviation (input) NUM_PARAMS_NH :: nat where "NUM_PARAMS_NH \<equiv> 39"

text \<open>
  The globals that only the NH file declares. The fields \<open>currentTrain_NH\<close>, \<open>pulseIndex_NH\<close>
  and \<open>inPulse_NH\<close> are the file-level statics that \<^verbatim>\<open>runChrimsonTrain\<close>, \<^verbatim>\<open>runChR2Train\<close> and
  \<^verbatim>\<open>resetTrain\<close> use. \<^verbatim>\<open>opto_ladder_state\<close> declares \<^verbatim>\<open>static\<close> locals of the same names, which
  hide them inside that function: of these, \<open>ladder_phase_NH\<close> and \<open>ladder_currentTrain_NH\<close>
  are read there. No statement assigns the local \<^verbatim>\<open>currentTrain\<close>.
\<close>

record machine_NH = globals +
  time_CHRIMSON_stimulated :: int
  CHRIMSON_refractory_clock :: int
  duty_timer_CHRIMSON :: int
  time_CHR2_stimulated :: int
  CHR2_refractory_clock :: int
  duty_timer_CHR2 :: int
  duty_state_CHRIMSON :: bool
  duty_state_CHR2 :: bool
  currentTrain_NH :: int
  pulseIndex_NH :: int
  inPulse_NH :: bool
  ladder_phase_NH :: int
  ladder_currentTrain_NH :: int

subsection \<open>Outputs and stimulation\<close>

definition setChrimsonLED_NH :: "bool \<Rightarrow> machine_NH \<Rightarrow> machine_NH" where
  "setChrimsonLED_NH turnOn m =
     (if turnOn
      then digitalWrite PIN_CHRIMSON_STIM True
             (analogWrite PIN_CHRIMSON_PWR (float_to_int (params m ! CHRIMSON_AOUT_1_VALUE_NH)) m)
      else digitalWrite PIN_CHRIMSON_STIM False (analogWrite PIN_CHRIMSON_PWR 0 m))"

definition setChR2LED_NH :: "bool \<Rightarrow> machine_NH \<Rightarrow> machine_NH" where
  "setChR2LED_NH turnOn m =
     (if turnOn
      then digitalWrite PIN_CHR2_STIM True
             (analogWrite PIN_CHR2_PWR (float_to_int (params m ! CHR2_AOUT_VALUE_NH)) m)
      else digitalWrite PIN_CHR2_STIM False (analogWrite PIN_CHR2_PWR 0 m))"

definition stimulateChrimson_NH :: "millis \<Rightarrow> machine_NH \<Rightarrow> machine_NH" where
  "stimulateChrimson_NH now m =
     debugMessage (STR ''Begin Chrimson Lamp ON.'')
       ((setChrimsonLED_NH True (m\<lparr>time_CHRIMSON_stimulated := signedMillis now\<rparr>))
          \<lparr>duty_timer_CHRIMSON := signedMillis now, duty_state_CHRIMSON := True\<rparr>)"

definition stimulateChR2_NH :: "millis \<Rightarrow> machine_NH \<Rightarrow> machine_NH" where
  "stimulateChR2_NH now m =
     debugMessage (STR ''Begin CHRIMSON Lamp ON.'')
       ((setChR2LED_NH True (m\<lparr>time_CHR2_stimulated := signedMillis now\<rparr>))
          \<lparr>duty_timer_CHR2 := signedMillis now, duty_state_CHR2 := True\<rparr>)"

text \<open>
  The request checks test \<^verbatim>\<open>~(_CHRIMSON_refractory_clock - _time_CHRIMSON_stimulated < 100)\<close>.
  The comparison is 0 or 1 and \<^verbatim>\<open>~\<close> is the bitwise complement, \<open>- x - 1\<close> on an \<^verbatim>\<open>int\<close>; the
  operand of \<^verbatim>\<open>&&\<close> is true when that number is not 0.
\<close>

definition refractory_test :: "int \<Rightarrow> int \<Rightarrow> bool" where
  "refractory_test clock stimulated =
     (- (if clock - stimulated < 100 then 1 else 0) - 1 \<noteq> (0::int))"

definition checkChrimsonRequest_NH :: "inputs \<Rightarrow> machine_NH \<Rightarrow> bool \<times> machine_NH" where
  "checkChrimsonRequest_NH inp m =
     (if pin_CHRIMSON_TRIGGER inp
         \<and> refractory_test (CHRIMSON_refractory_clock m) (time_CHRIMSON_stimulated m)
      then
        (let m1 = debugMessage (STR ''Received CHRIMSON request from BOSS arduino.'') m;
             m2 = sendMessage (EventMsg EVENT_BOSS_CHRIMSON_REQUEST
                                 (signedMillis (millis_now inp) - exp_timer m1)) m1;
             m3 = stimulateChrimson_NH (millis_now inp)
                    (setChrimsonReceipt True
                       (m2\<lparr>UI_CHRIMSON_stim_in_progress := False,
                           BOSS_CHRIMSON_stim_in_progress := True\<rparr>));
             m4 = sendMessage (EventMsg EVENT_BOSS_CHRIMSON_STIM_BEGIN
                                 (time_CHRIMSON_stimulated m3 - exp_timer m3)) m3;
             m5 = debugMessage (STR ''Current Duty Cycle high time and low time'') m4
         in (True, m5\<lparr>state := CHRIMSON_STIM_STATE\<rparr>))
      else if command m = CHR ''C''
              \<and> refractory_test (CHRIMSON_refractory_clock m) (time_CHRIMSON_stimulated m)
      then
        (let m1 = debugMessage (STR ''Received CHRIMSON request from HOST.'') m;
             m2 = sendMessage (EventMsg EVENT_UI_CHRIMSON_REQUEST
                                 (signedMillis (millis_now inp) - exp_timer m1)) m1;
             m3 = stimulateChrimson_NH (millis_now inp)
                    (setChrimsonReceipt True
                       (m2\<lparr>UI_CHRIMSON_stim_in_progress := True,
                           BOSS_CHRIMSON_stim_in_progress := False\<rparr>));
             m4 = sendMessage (EventMsg EVENT_UI_CHRIMSON_STIM_BEGIN
                                 (time_CHRIMSON_stimulated m3 - exp_timer m3)) m3;
             m5 = debugMessage (STR ''Killed HOST request with R message.'')
                    (sendMessage ReceiptMsg m4)
         in (True, m5\<lparr>state := CHRIMSON_STIM_STATE\<rparr>))
      else (False, m))"

definition checkChr2Request_NH :: "inputs \<Rightarrow> machine_NH \<Rightarrow> bool \<times> machine_NH" where
  "checkChr2Request_NH inp m =
     (if command m = CHR ''D''
         \<and> refractory_test (CHR2_refractory_clock m) (time_CHR2_stimulated m)
      then
        (let m1 = debugMessage (STR ''Received CHR2 request from HOST.'') m;
             m2 = sendMessage (EventMsg EVENT_UI_CHR2_REQUEST
                                 (signedMillis (millis_now inp) - exp_timer m1)) m1;
             m3 = stimulateChR2_NH (millis_now inp)
                    (setChR2Receipt True
                       (m2\<lparr>UI_CHR2_stim_in_progress := True,
                           BOSS_CHR2_stim_in_progress := False\<rparr>));
             m4 = sendMessage (EventMsg EVENT_UI_CHR2_STIM_BEGIN
                                 (time_CHR2_stimulated m3 - exp_timer m3)) m3;
             m5 = debugMessage (STR ''Killed HOST request with R message.'')
                    (sendMessage ReceiptMsg m4)
         in (True, m5\<lparr>state := CHR2_STIM_STATE\<rparr>))
      else (False, m))"

text \<open>
  \<^verbatim>\<open>checkStimChrimson\<close> and \<^verbatim>\<open>checkStimChR2\<close> end a stimulation in three places each, with the
  same statements up to the event marker, the result code and the debug text; that block is
  \<open>endChrimsonStim_NH\<close> and \<open>endChR2Stim_NH\<close>.
\<close>

definition endChrimsonStim_NH ::
    "EventMarkers \<Rightarrow> ResultCode \<Rightarrow> String.literal \<Rightarrow> millis \<Rightarrow> machine_NH \<Rightarrow> machine_NH" where
  "endChrimsonStim_NH marker code text now m =
     (let m1 = setChrimsonReceipt False (setChrimsonLED_NH False m);
          m2 = sendMessage (EventMsg marker (signedMillis now - exp_timer m1)) m1;
          m3 = m2\<lparr>BOSS_CHRIMSON_stim_in_progress := False,
                  UI_CHRIMSON_stim_in_progress := False, duty_state_CHRIMSON := False,
                  time_CHRIMSON_stimulated := 0, resultCode := Some code\<rparr>;
          m4 = sendMessage (ResultMsg code) m3
      in debugMessage text (m4\<lparr>resultCode := None\<rparr>))"

definition checkStimChrimson_NH :: "inputs \<Rightarrow> machine_NH \<Rightarrow> machine_NH" where
  "checkStimChrimson_NH inp m =
     (let now = millis_now inp in
      if BOSS_CHRIMSON_stim_in_progress m
      then
        (if params m ! CANCEL_ENABLED \<noteq> 0 \<and> pin_CANCEL inp
         then endChrimsonStim_NH EVENT_BOSS_CHRIMSON_STIM_END CODE_CHRIMSON_CANCEL
                (STR ''CANCELED BY EVENT INPUT - End Boss CHRIMSON stim (lamp OFF).'') now m
         else if params m ! CHRIMSON_DURATION
                   < of_int (signedMillis now - time_CHRIMSON_stimulated m)
         then endChrimsonStim_NH EVENT_BOSS_CHRIMSON_STIM_END CODE_CHRIMSON
                (STR ''End Boss CHRIMSON stim (lamp OFF).'') now m
         else if params m ! CHRIMSON_UP_TIME < of_int (signedMillis now - duty_timer_CHRIMSON m)
                 \<and> duty_state_CHRIMSON m
         then (setChrimsonLED_NH False (debugMessage (STR ''CHRIMSON Duty UP.'') m))
                \<lparr>duty_state_CHRIMSON := False, duty_timer_CHRIMSON := signedMillis now\<rparr>
         else if params m ! CHRIMSON_DOWN_TIME < of_int (signedMillis now - duty_timer_CHRIMSON m)
                 \<and> \<not> duty_state_CHRIMSON m
         then (setChrimsonLED_NH True
                 ((debugMessage (STR ''CHRIMSON Duty LO.'') m)\<lparr>duty_state_CHRIMSON := True\<rparr>))
                \<lparr>duty_timer_CHRIMSON := signedMillis now\<rparr>
         else m)
      else if UI_CHRIMSON_stim_in_progress m
      then
        (if params m ! UI_CHRIMSON_DURATION
              < of_int (signedMillis now - time_CHRIMSON_stimulated m)
         then endChrimsonStim_NH EVENT_UI_CHRIMSON_STIM_END CODE_UI_CHRIMSON
                (STR ''End UI CHRIMSON stim (lamp OFF).'') now m
         else if params m ! UI_CHRIMSON_UP_TIME
                   < of_int (signedMillis now - duty_timer_CHRIMSON m)
                 \<and> duty_state_CHRIMSON m
         then debugMessage (STR ''CHRIMSON Duty UP.'')
                ((setChrimsonLED_NH False m)
                   \<lparr>duty_timer_CHRIMSON := signedMillis now, duty_state_CHRIMSON := False\<rparr>)
         else if params m ! UI_CHRIMSON_DOWN_TIME
                   < of_int (signedMillis now - duty_timer_CHRIMSON m)
                 \<and> \<not> duty_state_CHRIMSON m
         then debugMessage (STR ''CHRIMSON Duty LOW.'')
                ((setChrimsonLED_NH True m)
                   \<lparr>duty_state_CHRIMSON := True, duty_timer_CHRIMSON := signedMillis now\<rparr>)
         else m)
      else m)"

definition endChR2Stim_NH ::
    "EventMarkers \<Rightarrow> ResultCode \<Rightarrow> String.literal \<Rightarrow> millis \<Rightarrow> machine_NH \<Rightarrow> machine_NH" where
  "endChR2Stim_NH marker code text now m =
     (let m1 = setChR2Receipt False (setChR2LED_NH False m);
          m2 = sendMessage (EventMsg marker (signedMillis now - exp_timer m1)) m1;
          m3 = m2\<lparr>BOSS_CHR2_stim_in_progress := False,
                  UI_CHR2_stim_in_progress := False, duty_state_CHR2 := False,
                  time_CHR2_stimulated := 0, resultCode := Some code\<rparr>;
          m4 = sendMessage (ResultMsg code) m3
      in debugMessage text (m4\<lparr>resultCode := None\<rparr>))"

definition checkStimChR2_NH :: "inputs \<Rightarrow> machine_NH \<Rightarrow> machine_NH" where
  "checkStimChR2_NH inp m =
     (let now = millis_now inp in
      if BOSS_CHR2_stim_in_progress m
      then
        (if params m ! CANCEL_ENABLED \<noteq> 0 \<and> pin_CANCEL inp
         then endChR2Stim_NH EVENT_BOSS_CHR2_STIM_END CODE_CHR2_CANCEL
                (STR ''CANCELED BY EVENT INPUT - End Boss CHR2 stim (lamp OFF).'') now m
         else if params m ! CHR2_DURATION < of_int (signedMillis now - time_CHR2_stimulated m)
         then endChR2Stim_NH EVENT_BOSS_CHR2_STIM_END CODE_CHR2
                (STR ''End Boss CHR2 stim (lamp OFF).'') now m
         else if params m ! CHR2_UP_TIME < of_int (signedMillis now - duty_timer_CHR2 m)
                 \<and> duty_state_CHR2 m
         then (setChR2LED_NH False (debugMessage (STR ''CHR2 Duty UP.'') m))
                \<lparr>duty_state_CHR2 := False, duty_timer_CHR2 := signedMillis now\<rparr>
         else if params m ! CHR2_DOWN_TIME < of_int (signedMillis now - duty_timer_CHR2 m)
                 \<and> \<not> duty_state_CHR2 m
         then (setChR2LED_NH True
                 ((debugMessage (STR ''CHR2 Duty LO.'') m)\<lparr>duty_state_CHR2 := True\<rparr>))
                \<lparr>duty_timer_CHR2 := signedMillis now\<rparr>
         else m)
      else if UI_CHR2_stim_in_progress m
      then
        (if params m ! UI_CHR2_DURATION < of_int (signedMillis now - time_CHR2_stimulated m)
         then endChR2Stim_NH EVENT_UI_CHR2_STIM_END CODE_UI_CHR2
                (STR ''End UI CHR2 stim (lamp OFF).'') now m
         else if params m ! UI_CHR2_UP_TIME < of_int (signedMillis now - duty_timer_CHR2 m)
                 \<and> duty_state_CHR2 m
         then debugMessage (STR ''CHR2 Duty UP.'')
                ((setChR2LED_NH False m)
                   \<lparr>duty_timer_CHR2 := signedMillis now, duty_state_CHR2 := False\<rparr>)
         else if params m ! UI_CHR2_DOWN_TIME < of_int (signedMillis now - duty_timer_CHR2 m)
                 \<and> \<not> duty_state_CHR2 m
         then debugMessage (STR ''CHR2 Duty LOW.'')
                ((setChR2LED_NH True m)
                   \<lparr>duty_state_CHR2 := True, duty_timer_CHR2 := signedMillis now\<rparr>)
         else m)
      else m)"

definition setPhotometryLED_NH :: "millis \<Rightarrow> bool \<Rightarrow> bool \<Rightarrow> machine_NH \<Rightarrow> machine_NH" where
  "setPhotometryLED_NH now turnOn isParamChange m =
     (if isParamChange
         \<and> of_int (signedMillis now - photometry_toggle_timer m) < params m ! PHOT_TOGGLE_DELAY_NH
      then m
      else if turnOn
      then (digitalWrite PIN_PHOTOMETRY_LED True m)\<lparr>photometry_LED_enabled := True\<rparr>
      else (digitalWrite PIN_PHOTOMETRY_LED False m)\<lparr>photometry_LED_enabled := False\<rparr>)"

definition checkPhotometryLED_NH :: "millis \<Rightarrow> machine_NH \<Rightarrow> machine_NH" where
  "checkPhotometryLED_NH now m =
     (if command m = CHR ''Y''
      then
        (let m1 = debugMessage (STR ''Received command to toggle LEDs.'') m;
             m2 = (if params m1 ! PHOTOMETRY_ON_NH = 1
                   then debugMessage (STR ''New PHOTOMETRY_ON should be 0.'')
                          (m1\<lparr>params := (params m1)[PHOTOMETRY_ON_NH := 0]\<rparr>)
                   else debugMessage (STR ''New PHOTOMETRY_ON should be 1.'')
                          (m1\<lparr>params := (params m1)[PHOTOMETRY_ON_NH := 1]\<rparr>));
             m3 = sendMessage (ParamMsg PHOTOMETRY_ON_NH (params m2 ! PHOTOMETRY_ON_NH)) m2
         in debugMessage (STR ''Parameter changed'') m3)
      else setPhotometryLED_NH now (params m ! PHOTOMETRY_ON_NH = 1) True m)"

subsection \<open>The parameter update state\<close>

definition fdiv :: "float \<Rightarrow> float \<Rightarrow> error + float" where
  "fdiv a b = (if b = 0 then Inl NotFinite else Inr (a / b))"

text \<open>Statements run in sequence, each on the state the previous one leaves; the first error
  ends the sequence.\<close>

definition in_sequence :: "('s \<Rightarrow> error + 's) list \<Rightarrow> 's \<Rightarrow> error + 's" where
  "in_sequence fs s = foldl (\<lambda>r f. case r of Inl e \<Rightarrow> Inl e | Inr x \<Rightarrow> f x) (Inr s) fs"

text \<open>\<open>on_param k f\<close> is the statement \<^verbatim>\<open>if (_argcopy[0] == k) { f }\<close>.\<close>

definition on_param ::
    "nat \<Rightarrow> (machine_NH \<Rightarrow> error + machine_NH) \<Rightarrow> machine_NH \<Rightarrow> error + machine_NH" where
  "on_param k f m = (if fst (argcopy m) = int k then f m else Inr m)"

definition set_param :: "nat \<Rightarrow> float \<Rightarrow> machine_NH \<Rightarrow> machine_NH" where
  "set_param k v m = m\<lparr>params := (params m)[k := v]\<rparr>"

definition report_param :: "nat \<Rightarrow> machine_NH \<Rightarrow> machine_NH" where
  "report_param k m = sendMessage (ParamMsg k (params m ! k)) m"

text \<open>
  The entry action of \<^verbatim>\<open>update_params_state\<close> has one block for each of the five fields of the
  triples CHRIMSON, UI\_CHRIMSON and CHR2. The blocks of the three triples differ in the
  indices and in which of two debug messages they send (\<open>d1\<close>, \<open>d2\<close>). The five definitions
  below are the five blocks, for the indices \<open>freq\<close>, \<open>period\<close>, \<open>duty\<close>, \<open>up\<close> and \<open>down\<close>.
\<close>

definition duty_cycle_block ::
    "bool \<Rightarrow> bool \<Rightarrow> nat \<Rightarrow> nat \<Rightarrow> nat \<Rightarrow> machine_NH \<Rightarrow> error + machine_NH" where
  "duty_cycle_block d1 d2 period up down m =
     (let cycle_time = params m ! period;
          m1 = (if d1 then debugMessage (STR ''cycle_time'') m else m);
          m2 = set_param up (of_int (snd (argcopy m1)) / 100 * cycle_time) m1;
          m3 = (if d2 then debugMessage (STR ''UP_TIME'') m2 else m2);
          m4 = report_param up m3;
          m5 = set_param down (cycle_time - params m4 ! up) m4
      in Inr (report_param down m5))"

definition up_time_block ::
    "nat \<Rightarrow> nat \<Rightarrow> nat \<Rightarrow> machine_NH \<Rightarrow> error + machine_NH" where
  "up_time_block period duty down m =
     (let cycle_time = params m ! period
      in case fdiv (100 * of_int (snd (argcopy m))) cycle_time of
           Inl e \<Rightarrow> Inl e
         | Inr q \<Rightarrow>
             (let m1 = report_param duty (set_param duty q m);
                  m2 = set_param down (cycle_time - of_int (snd (argcopy m1))) m1
              in Inr (report_param down m2)))"

definition down_time_block ::
    "nat \<Rightarrow> nat \<Rightarrow> nat \<Rightarrow> machine_NH \<Rightarrow> error + machine_NH" where
  "down_time_block period up duty m =
     (let cycle_time = params m ! period;
          m1 = report_param up (set_param up (cycle_time - of_int (snd (argcopy m))) m)
      in case fdiv (100 * params m1 ! up) cycle_time of
           Inl e \<Rightarrow> Inl e
         | Inr q \<Rightarrow> Inr (report_param duty (set_param duty q m1)))"

definition frequency_block ::
    "bool \<Rightarrow> nat \<Rightarrow> nat \<Rightarrow> nat \<Rightarrow> nat \<Rightarrow> machine_NH \<Rightarrow> error + machine_NH" where
  "frequency_block d period duty up down m =
     (case fdiv 1000 (of_int (snd (argcopy m))) of
        Inl e \<Rightarrow> Inl e
      | Inr q \<Rightarrow>
          (let m1 = report_param period (set_param period q m);
               cycle_time = params m1 ! period;
               m2 = (if d then debugMessage (STR ''cycle_time'') m1 else m1);
               m3 = set_param up (params m2 ! duty / 100 * cycle_time) m2;
               m4 = (if d then debugMessage (STR ''UP_TIME'') m3 else m3);
               m5 = report_param up m4;
               m6 = set_param down (cycle_time - params m5 ! up) m5
           in Inr (report_param down m6)))"

definition period_block ::
    "bool \<Rightarrow> nat \<Rightarrow> nat \<Rightarrow> nat \<Rightarrow> nat \<Rightarrow> machine_NH \<Rightarrow> error + machine_NH" where
  "period_block d freq duty up down m =
     (case fdiv 1000 (of_int (snd (argcopy m))) of
        Inl e \<Rightarrow> Inl e
      | Inr q \<Rightarrow>
          (let m1 = report_param freq (set_param freq q m);
               cycle_time = of_int (snd (argcopy m1));
               m2 = (if d then debugMessage (STR ''cycle_time'') m1 else m1);
               m3 = set_param up (params m2 ! duty / 100 * cycle_time) m2;
               m4 = (if d then debugMessage (STR ''UP_TIME'') m3 else m3);
               m5 = report_param up m4;
               m6 = set_param down (cycle_time - params m5 ! up) m5
           in Inr (report_param down m6)))"

definition photometry_toggle_block :: "millis \<Rightarrow> machine_NH \<Rightarrow> error + machine_NH" where
  "photometry_toggle_block now m =
     (if (params m ! PHOTOMETRY_ON_NH = 1 \<and> \<not> photometry_LED_enabled m)
         \<or> (params m ! PHOTOMETRY_ON_NH = 0 \<and> photometry_LED_enabled m)
      then
        (let m1 = (debugMessage (STR ''Photometry LED parameter changed.'') m)
                    \<lparr>photometry_toggle_timer := signedMillis now\<rparr>
         in Inr (m1\<lparr>photometry_LED_enabled := (params m1 ! PHOTOMETRY_ON_NH = 1)\<rparr>))
      else Inr m)"

definition update_params_entry_NH :: "millis \<Rightarrow> machine_NH \<Rightarrow> error + machine_NH" where
  "update_params_entry_NH now m =
     in_sequence
       [\<lambda>m. Inr (debugMessage (STR ''The current _argcopy'')
                   ((checkWarnings now (sendMessage (StateMsg (state m)) m))\<lparr>hold := True\<rparr>)),
        on_param CHRIMSON_DUTY_CYCLE
          (duty_cycle_block True True CHRIMSON_PERIOD CHRIMSON_UP_TIME CHRIMSON_DOWN_TIME),
        on_param CHRIMSON_UP_TIME
          (up_time_block CHRIMSON_PERIOD CHRIMSON_DUTY_CYCLE CHRIMSON_DOWN_TIME),
        on_param CHRIMSON_DOWN_TIME
          (down_time_block CHRIMSON_PERIOD CHRIMSON_UP_TIME CHRIMSON_DUTY_CYCLE),
        on_param CHRIMSON_FREQUENCY
          (frequency_block True CHRIMSON_PERIOD CHRIMSON_DUTY_CYCLE CHRIMSON_UP_TIME
             CHRIMSON_DOWN_TIME),
        on_param CHRIMSON_PERIOD
          (period_block True CHRIMSON_FREQUENCY CHRIMSON_DUTY_CYCLE CHRIMSON_UP_TIME
             CHRIMSON_DOWN_TIME),
        on_param UI_CHRIMSON_DUTY_CYCLE
          (duty_cycle_block True True UI_CHRIMSON_PERIOD UI_CHRIMSON_UP_TIME
             UI_CHRIMSON_DOWN_TIME),
        on_param UI_CHRIMSON_UP_TIME
          (up_time_block UI_CHRIMSON_PERIOD UI_CHRIMSON_DUTY_CYCLE UI_CHRIMSON_DOWN_TIME),
        on_param UI_CHRIMSON_DOWN_TIME
          (down_time_block UI_CHRIMSON_PERIOD UI_CHRIMSON_UP_TIME UI_CHRIMSON_DUTY_CYCLE),
        on_param UI_CHRIMSON_FREQUENCY
          (frequency_block True UI_CHRIMSON_PERIOD UI_CHRIMSON_DUTY_CYCLE UI_CHRIMSON_UP_TIME
             UI_CHRIMSON_DOWN_TIME),
        on_param UI_CHRIMSON_PERIOD
          (period_block True UI_CHRIMSON_FREQUENCY UI_CHRIMSON_DUTY_CYCLE UI_CHRIMSON_UP_TIME
             UI_CHRIMSON_DOWN_TIME),
        photometry_toggle_block now,
        on_param CHR2_DUTY_CYCLE
          (duty_cycle_block True False CHR2_PERIOD CHR2_UP_TIME CHR2_DOWN_TIME),
        on_param CHR2_UP_TIME (up_time_block CHR2_PERIOD CHR2_DUTY_CYCLE CHR2_DOWN_TIME),
        on_param CHR2_DOWN_TIME (down_time_block CHR2_PERIOD CHR2_UP_TIME CHR2_DUTY_CYCLE),
        on_param CHR2_FREQUENCY
          (frequency_block False CHR2_PERIOD CHR2_DUTY_CYCLE CHR2_UP_TIME CHR2_DOWN_TIME),
        on_param CHR2_PERIOD
          (period_block False CHR2_FREQUENCY CHR2_DUTY_CYCLE CHR2_UP_TIME CHR2_DOWN_TIME),
        \<lambda>m. Inr (debugMessage (STR ''Collecting parameter update from Matlab HOST'') m)]
       m"

definition update_params_state_NH :: "inputs \<Rightarrow> machine_NH \<Rightarrow> error + machine_NH" where
  "update_params_state_NH inp m =
     (case (if \<not> hold m then update_params_entry_NH (millis_now inp) m else Inr m) of
        Inl e \<Rightarrow> Inl e
      | Inr m1 \<Rightarrow>
          (case checkQuit m1 of
             (True, m2) \<Rightarrow> Inr m2
           | (False, m2) \<Rightarrow>
               (case checkUpdateComplete m2 of
                  (True, m3) \<Rightarrow> Inr m3
                | (False, m3) \<Rightarrow> Inr (m3\<lparr>state := UPDATE_PARAMS_STATE\<rparr>))))"

subsection \<open>The train functions and the ladder\<close>

text \<open>
  The pulse count of the NH train functions is the literal 5. The arguments of the two
  \<^verbatim>\<open>delay\<close> calls are the enumeration constants \<^verbatim>\<open>CHRIMSON_PERIOD\<close> and \<^verbatim>\<open>CHR2_PERIOD\<close>, the
  numbers 4 and 10, not the parameter values.
\<close>

definition runChrimsonTrain_NH :: "millis \<Rightarrow> machine_NH \<Rightarrow> machine_NH" where
  "runChrimsonTrain_NH now m =
     (let m1 =
        (if \<not> inPulse_NH m \<and> pulseIndex_NH m < 5
         then debugMessage (STR ''Begin Chrimson Pulse'')
                ((setChrimsonLED_NH True (m\<lparr>time_CHRIMSON_stimulated := signedMillis now\<rparr>))
                   \<lparr>duty_timer_CHRIMSON := signedMillis now, duty_state_CHRIMSON := True,
                    inPulse_NH := True\<rparr>)
         else m)
      in if inPulse_NH m1
         then
           (if duty_state_CHRIMSON m1
               \<and> params m1 ! CHRIMSON_UP_TIME < of_int (signedMillis now - duty_timer_CHRIMSON m1)
            then (analogWrite PIN_CHRIMSON_PWR 0 m1)
                   \<lparr>duty_state_CHRIMSON := False, duty_timer_CHRIMSON := signedMillis now\<rparr>
            else if \<not> duty_state_CHRIMSON m1
                    \<and> params m1 ! CHRIMSON_DOWN_TIME
                        < of_int (signedMillis now - duty_timer_CHRIMSON m1)
            then
              (let m2 = m1\<lparr>pulseIndex_NH := pulseIndex_NH m1 + 1\<rparr>
               in if pulseIndex_NH m2 < 5
                  then debugMessage (STR ''Restarting Duty Cycle for Pulse'')
                         ((setChrimsonLED_NH True m2)
                            \<lparr>duty_state_CHRIMSON := True,
                             duty_timer_CHRIMSON := signedMillis now\<rparr>)
                  else
                    (let m3 = (setChrimsonLED_NH False m2)
                                \<lparr>inPulse_NH := False, pulseIndex_NH := 0,
                                 currentTrain_NH := currentTrain_NH m2 + 1\<rparr>;
                         m4 = m3\<lparr>out := out m3 @ [Delay CHRIMSON_PERIOD]\<rparr>
                     in debugMessage (STR ''Completed Chrimson Train'') m4))
            else m1)
         else m1)"

definition runChR2Train_NH :: "millis \<Rightarrow> machine_NH \<Rightarrow> machine_NH" where
  "runChR2Train_NH now m =
     (let m1 =
        (if \<not> inPulse_NH m \<and> pulseIndex_NH m < 5
         then debugMessage (STR ''Begin ChR2 Pulse'')
                ((analogWrite PIN_CHR2_PWR (float_to_int (params m ! CHR2_AOUT_VALUE_NH))
                    (m\<lparr>time_CHR2_stimulated := signedMillis now\<rparr>))
                   \<lparr>duty_timer_CHR2 := signedMillis now, duty_state_CHR2 := True,
                    inPulse_NH := True\<rparr>)
         else m)
      in if inPulse_NH m1
         then
           (if duty_state_CHR2 m1
               \<and> params m1 ! CHR2_UP_TIME < of_int (signedMillis now - duty_timer_CHR2 m1)
            then (analogWrite PIN_CHR2_PWR 0 m1)
                   \<lparr>duty_state_CHR2 := False, duty_timer_CHR2 := signedMillis now\<rparr>
            else if \<not> duty_state_CHR2 m1
                    \<and> params m1 ! CHR2_DOWN_TIME < of_int (signedMillis now - duty_timer_CHR2 m1)
            then
              (let m2 = m1\<lparr>pulseIndex_NH := pulseIndex_NH m1 + 1\<rparr>
               in if pulseIndex_NH m2 < 5
                  then debugMessage (STR ''Restarting Duty Cycle for ChR2 Pulse'')
                         ((setChR2LED_NH True m2)
                            \<lparr>duty_state_CHR2 := True, duty_timer_CHR2 := signedMillis now\<rparr>)
                  else
                    (let m3 = (setChR2LED_NH False m2)
                                \<lparr>inPulse_NH := False, pulseIndex_NH := 0,
                                 currentTrain_NH := currentTrain_NH m2 + 1\<rparr>;
                         m4 = m3\<lparr>out := out m3 @ [Delay CHR2_PERIOD]\<rparr>
                     in debugMessage (STR ''Completed ChR2 Train'') m4))
            else m1)
         else m1)"

definition resetTrain_NH :: "machine_NH \<Rightarrow> machine_NH" where
  "resetTrain_NH m = m\<lparr>pulseIndex_NH := 0, currentTrain_NH := 0, inPulse_NH := False\<rparr>"

text \<open>
  In \<^verbatim>\<open>opto_ladder_state\<close> the three bounds are the enumeration constants
  \<^verbatim>\<open>CHRIMSON_TRAINS_BEFORE_CHR2\<close>, \<^verbatim>\<open>CHR2_NUM_TRAINS\<close> and \<^verbatim>\<open>CHRIMSON_TRAINS_AFTER_CHR2\<close> (36, 38
  and 37), and the counter compared with them is the local static \<^verbatim>\<open>currentTrain\<close>.
\<close>

definition opto_ladder_entry_NH :: "machine_NH \<Rightarrow> machine_NH" where
  "opto_ladder_entry_NH m =
     (if state m \<noteq> prevState m
      then resetTrain_NH
             ((debugMessage (STR ''Performing OptoLadder Experiment.'')
                 (sendMessage (StateMsg (state m)) (m\<lparr>prevState := state m\<rparr>)))
                \<lparr>ladder_phase_NH := 0\<rparr>)
      else m)"

definition opto_ladder_state_NH :: "inputs \<Rightarrow> machine_NH \<Rightarrow> machine_NH" where
  "opto_ladder_state_NH inp m =
     (let now = millis_now inp; m1 = opto_ladder_entry_NH m
      in if ladder_phase_NH m1 = 0
         then
           (if ladder_currentTrain_NH m1 < int CHRIMSON_TRAINS_BEFORE_CHR2_NH
            then runChrimsonTrain_NH now m1
            else resetTrain_NH (m1\<lparr>ladder_phase_NH := ladder_phase_NH m1 + 1\<rparr>))
         else if ladder_phase_NH m1 = 1
         then
           (if ladder_currentTrain_NH m1 < int CHR2_NUM_TRAINS_NH
            then runChR2Train_NH now m1
            else resetTrain_NH (m1\<lparr>ladder_phase_NH := ladder_phase_NH m1 + 1\<rparr>))
         else if ladder_phase_NH m1 = 2
         then
           (if ladder_currentTrain_NH m1 < int CHRIMSON_TRAINS_AFTER_CHR2_NH
            then runChrimsonTrain_NH now m1
            else m1\<lparr>state := IDLE_STATE\<rparr>)
         else m1)"

subsection \<open>The state functions and the main loop\<close>

definition idle_entry_NH :: "machine_NH \<Rightarrow> machine_NH" where
  "idle_entry_NH m =
     (if state m \<noteq> prevState m
      then
        (let a = sendMessage (Text (STR ''Version Code''))
                   (sendMessage (Text (STR ''Optogenetics_Controller4''))
                      (sendMessage (Text (STR ''-'')) m));
             b = sendMessage (StateMsg (state a)) (a\<lparr>prevState := state a\<rparr>);
             c = setChR2LED_NH False (setChrimsonLED_NH False
                   (setAnalogOutput 2 0 (setAnalogOutput 1 0
                      (setChR2Receipt False (setChrimsonReceipt False b)))))
         in debugMessage (STR ''Idle.'') (c\<lparr>resultCode := None\<rparr>))
      else m)"

definition idle_state_NH :: "inputs \<Rightarrow> machine_NH \<Rightarrow> error + machine_NH" where
  "idle_state_NH inp m =
     (let m1 = idle_entry_NH m
      in if command m1 = CHR ''G'' then Inr (m1\<lparr>state := INIT_EXP\<rparr>)
         else if command m1 = CHR ''L'' then Inr (m1\<lparr>state := OPTO_LADDER_STATE\<rparr>)
         else
           (case checkParamUpdate (checkPhotometryLED_NH (millis_now inp) m1) of
              Inl e \<Rightarrow> Inl e
            | Inr (True, m2) \<Rightarrow> Inr m2
            | Inr (False, m2) \<Rightarrow> Inr (m2\<lparr>state := IDLE_STATE\<rparr>)))"

definition wait_request_state_NH :: "inputs \<Rightarrow> machine_NH \<Rightarrow> error + machine_NH" where
  "wait_request_state_NH inp m =
     (case checkQuit (wait_request_entry m) of
        (True, m2) \<Rightarrow> Inr m2
      | (False, m2) \<Rightarrow>
          (case checkParamUpdate (checkReferenceEvent inp (checkTrialStart inp m2)) of
             Inl e \<Rightarrow> Inl e
           | Inr (True, m3) \<Rightarrow> Inr m3
           | Inr (False, m3) \<Rightarrow>
               (case checkChrimsonRequest_NH inp m3 of
                  (True, m4) \<Rightarrow> Inr m4
                | (False, m4) \<Rightarrow>
                    (case checkChr2Request_NH inp m4 of
                       (True, m5) \<Rightarrow> Inr m5
                     | (False, m5) \<Rightarrow>
                         Inr ((checkPhotometryLED_NH (millis_now inp) m5)
                                \<lparr>state := WAIT_REQUEST_STATE\<rparr>)))))"

definition Chrimson_stim_state_NH :: "inputs \<Rightarrow> machine_NH \<Rightarrow> machine_NH" where
  "Chrimson_stim_state_NH inp m =
     (case checkQuit (Chrimson_stim_entry m) of
        (True, m2) \<Rightarrow> m2
      | (False, m2) \<Rightarrow>
          (case checkChrimsonRequest_NH inp (checkStimChrimson_NH inp m2) of
             (True, m3) \<Rightarrow> m3
           | (False, m3) \<Rightarrow>
               (let m4 = checkPhotometryLED_NH (millis_now inp) m3
                in if \<not> UI_CHRIMSON_stim_in_progress m4 \<and> \<not> BOSS_CHRIMSON_stim_in_progress m4
                   then m4\<lparr>state := WAIT_REQUEST_STATE\<rparr>
                   else m4)))"

definition Chr2_stim_state_NH :: "inputs \<Rightarrow> machine_NH \<Rightarrow> machine_NH" where
  "Chr2_stim_state_NH inp m =
     (case checkQuit (Chr2_stim_entry m) of
        (True, m2) \<Rightarrow> m2
      | (False, m2) \<Rightarrow>
          (case checkChr2Request_NH inp (checkStimChR2_NH inp m2) of
             (True, m3) \<Rightarrow> m3
           | (False, m3) \<Rightarrow>
               (let m4 = checkPhotometryLED_NH (millis_now inp) m3
                in if \<not> UI_CHR2_stim_in_progress m4 \<and> \<not> BOSS_CHR2_stim_in_progress m4
                   then m4\<lparr>state := WAIT_REQUEST_STATE\<rparr>
                   else m4)))"

definition mySetup_NH :: "machine_NH \<Rightarrow> machine_NH" where
  "mySetup_NH m =
     (let m1 = setChR2Receipt False (setChR2LED_NH False
                 (setChrimsonReceipt False (setChrimsonLED_NH False m)));
          m2 = m1\<lparr>state := INIT, prevState := INIT, command := CHR '' '', arguments := (0, 0),
                  resultCode := None, exp_timer := 0, time_CHRIMSON_stimulated := 0,
                  CHRIMSON_refractory_clock := 0, duty_timer_CHRIMSON := 0,
                  photometry_toggle_timer := 0\<rparr>;
          m3 = debugMessage (STR ''Initial Duty Cycle high time and low time'') m2
      in hostInit
           (m3\<lparr>photometry_LED_enabled := True, BOSS_CHRIMSON_stim_in_progress := False,
               UI_CHRIMSON_stim_in_progress := False, duty_state_CHRIMSON := False,
               hold := False, isParamsUpdateStarted := False, isParamsUpdateDone := True,
               ready_for_next_trial := True, ready_for_cue := True\<rparr>))"

text \<open>The \<^verbatim>\<open>switch\<close> of the NH main loop has no case for a ninth state, and the NH file has no
  statement that assigns one; the loop does not call \<^verbatim>\<open>handleAnalogOutput\<close>.\<close>

definition loop_step_NH :: "inputs \<Rightarrow> machine_NH \<Rightarrow> error + machine_NH" where
  "loop_step_NH inp m =
     (let m1 = readHostMessage inp m
      in if command m1 = CHR ''R'' then Inr (mySetup_NH m1)
         else
           (case state m1 of
              INIT \<Rightarrow> idle_state_NH inp m1
            | IDLE_STATE \<Rightarrow> idle_state_NH inp m1
            | INIT_EXP \<Rightarrow> Inr (init_exp inp m1)
            | WAIT_REQUEST_STATE \<Rightarrow> wait_request_state_NH inp m1
            | CHRIMSON_STIM_STATE \<Rightarrow> Inr (Chrimson_stim_state_NH inp m1)
            | CHR2_STIM_STATE \<Rightarrow> Inr (Chr2_stim_state_NH inp m1)
            | OPTO_LADDER_STATE \<Rightarrow> Inr (opto_ladder_state_NH inp m1)
            | DAN_TAG_STATE \<Rightarrow> Inr m1
            | UPDATE_PARAMS_STATE \<Rightarrow> update_params_state_NH inp m1))"

fun run_NH :: "inputs list \<Rightarrow> machine_NH \<Rightarrow> error + machine_NH" where
  "run_NH [] m = Inr m"
| "run_NH (i # is) m = (case loop_step_NH i m of Inl e \<Rightarrow> Inl e | Inr m' \<Rightarrow> run_NH is m')"

definition default_params_NH :: "float list" where
  "default_params_NH =
     [1, 0, 1,  1, 1000, 1000, 50, 500, 500,  10, 100, 250, 35, 35, 65,
      1, 1000, 1000, 50, 500, 500,  10, 100, 250, 35, 35, 65,
      0, 0, 0, 0, 0,  0,  0, 0, 1000,  0, 0, 0]"

definition power_on_NH :: machine_NH where
  "power_on_NH =
     \<lparr>state = INIT, prevState = INIT, command = CHR '' '', arguments = (0, 0), argcopy = (0, 0),
      resultCode = None, exp_timer = 0,
      BOSS_CHRIMSON_stim_in_progress = False, BOSS_CHR2_stim_in_progress = False,
      UI_CHRIMSON_stim_in_progress = False, UI_CHR2_stim_in_progress = False,
      hold = False, isParamsUpdateStarted = False, isParamsUpdateDone = True,
      ready_for_next_trial = True, ready_for_cue = True, photometry_toggle_timer = 0,
      photometry_LED_enabled = True, params = default_params_NH, out = [],
      time_CHRIMSON_stimulated = 0, CHRIMSON_refractory_clock = 0, duty_timer_CHRIMSON = 0,
      time_CHR2_stimulated = 0, CHR2_refractory_clock = 0, duty_timer_CHR2 = 0,
      duty_state_CHRIMSON = False, duty_state_CHR2 = False,
      currentTrain_NH = 0, pulseIndex_NH = 0, inPulse_NH = False,
      ladder_phase_NH = 0, ladder_currentTrain_NH = 0\<rparr>"

definition booted_NH :: machine_NH where
  "booted_NH = mySetup_NH power_on_NH"

section \<open>Auxiliary definitions\<close>

text \<open>The command character that a pass of the loop sees, and an input with a host message
  and idle pins (the trial line is high when idle).\<close>

definition command_of :: "inputs \<Rightarrow> char" where
  "command_of inp = (case host_message inp of None \<Rightarrow> CHR '' '' | Some (c, a0, a1) \<Rightarrow> c)"

definition host :: "char \<Rightarrow> int \<Rightarrow> int \<Rightarrow> millis \<Rightarrow> inputs" where
  "host c a b t = \<lparr>millis_now = t, host_message = Some (c, a, b), pin_CHRIMSON_TRIGGER = False,
     pin_TRIAL_INIT = True, pin_CUE_ON = False, pin_CANCEL = False\<rparr>"

definition quiet :: "millis \<Rightarrow> inputs" where
  "quiet t = \<lparr>millis_now = t, host_message = None, pin_CHRIMSON_TRIGGER = False,
     pin_TRIAL_INIT = True, pin_CUE_ON = False, pin_CANCEL = False\<rparr>"

text \<open>The buffered parameter index lies inside the parameter array.\<close>

definition id_in_range :: "'a globals_scheme \<Rightarrow> bool" where
  "id_in_range m = (0 \<le> fst (argcopy m) \<and> fst (argcopy m) < int (length (params m)))"

definition final_state :: "error + 'a globals_scheme \<Rightarrow> State option" where
  "final_state r = (case r of Inl e \<Rightarrow> None | Inr m \<Rightarrow> Some (state m))"

text \<open>Observations of the result of a run.\<close>

definition out_of :: "error + 'a globals_scheme \<Rightarrow> event list" where
  "out_of r = (case r of Inl e \<Rightarrow> [] | Inr m \<Rightarrow> out m)"

definition params_of :: "error + 'a globals_scheme \<Rightarrow> float list" where
  "params_of r = (case r of Inl e \<Rightarrow> [] | Inr m \<Rightarrow> params m)"

text \<open>The four stimulation-in-progress flags: BOSS Chrimson, UI Chrimson, BOSS ChR2, UI ChR2.\<close>

definition session_flags ::
    "error + 'a globals_scheme \<Rightarrow> (bool \<times> bool \<times> bool \<times> bool) option" where
  "session_flags r =
     (case r of
        Inl e \<Rightarrow> None
      | Inr m \<Rightarrow>
          Some (BOSS_CHRIMSON_stim_in_progress m, UI_CHRIMSON_stim_in_progress m,
                BOSS_CHR2_stim_in_progress m, UI_CHR2_stim_in_progress m))"

text \<open>The warnings among the events (a warning text or an error event marker), and the
  result codes sent, in order.\<close>

fun is_warning :: "event \<Rightarrow> bool" where
  "is_warning (Send (Warning s)) = True"
| "is_warning (Send (EventMsg EVENT_CHRIMSON_ERROR t)) = True"
| "is_warning (Send (EventMsg EVENT_CHR2_ERROR t)) = True"
| "is_warning e = False"

fun results :: "event list \<Rightarrow> ResultCode list" where
  "results [] = []"
| "results (Send (ResultMsg c) # es) = c # results es"
| "results (e # es) = results es"

text \<open>The values written to a digital pin, the values written to an analog pin and the
  arguments of \<^verbatim>\<open>delay\<close>, each in order.\<close>

fun digital_writes :: "pin \<Rightarrow> event list \<Rightarrow> bool list" where
  "digital_writes p [] = []"
| "digital_writes p (DigitalWrite q v # es) =
     (if q = p then v # digital_writes p es else digital_writes p es)"
| "digital_writes p (e # es) = digital_writes p es"

fun power_writes :: "pin \<Rightarrow> event list \<Rightarrow> int list" where
  "power_writes p [] = []"
| "power_writes p (AnalogWrite q a # es) =
     (if q = p then a # power_writes p es else power_writes p es)"
| "power_writes p (e # es) = power_writes p es"

fun delays :: "event list \<Rightarrow> nat list" where
  "delays [] = []"
| "delays (Delay n # es) = n # delays es"
| "delays (e # es) = delays es"

text \<open>The pulse bookkeeping of the Svedberg machine at the end of a run: pulse index, in-pulse
  flag, train count, single-train mode, pulse timer and inter-pulse timer.\<close>

definition session_of ::
    "error + machine \<Rightarrow> (int \<times> bool \<times> int \<times> bool \<times> millis \<times> millis) option" where
  "session_of r =
     (case r of
        Inl e \<Rightarrow> None
      | Inr m \<Rightarrow>
          Some (pulseIndex m, inPulse m, currentTrain m, singleTrainMode m, pulseTimer m,
                ipiTimer m))"

definition result_or :: "'a \<Rightarrow> error + 'a \<Rightarrow> 'a" where
  "result_or d r = (case r of Inl e \<Rightarrow> d | Inr m \<Rightarrow> m)"

text \<open>
  Observers of a pulse train. \<open>pulse_edges k\<close> is the sequence of LED writes of \<open>k\<close> whole
  pulses. \<open>chrimson_session ts m\<close> calls \<^verbatim>\<open>runChrimsonTrain\<close> at the clock readings \<open>ts\<close>, one
  call for each reading, until a call changes the train counter. \<open>paced d t ts\<close> says that
  every reading of \<open>ts\<close> is at least \<open>d\<close> milliseconds after the one before it, the first one
  after \<open>t\<close>. \<open>edges_left N m\<close> counts the LED writes that remain in a train of \<open>N\<close> pulses.
\<close>

definition pulse_edges :: "nat \<Rightarrow> bool list" where
  "pulse_edges k = concat (replicate k [True, False])"

fun paced :: "float \<Rightarrow> millis \<Rightarrow> millis list \<Rightarrow> bool" where
  "paced d t [] = True"
| "paced d t (t' # ts) = (d \<le> elapsed t' t \<and> paced d t' ts)"

definition edges_left :: "int \<Rightarrow> machine \<Rightarrow> int" where
  "edges_left N m = 2 * (N - pulseIndex m) - (if inPulse m then 1 else 0)"

fun chrimson_session :: "millis list \<Rightarrow> machine \<Rightarrow> machine" where
  "chrimson_session [] m = m"
| "chrimson_session (t # ts) m =
     (let m' = runChrimsonTrain t m
      in if currentTrain m' = currentTrain m then chrimson_session ts m' else m')"

fun chR2_session :: "millis list \<Rightarrow> machine \<Rightarrow> machine" where
  "chR2_session [] m = m"
| "chR2_session (t # ts) m =
     (let m' = runChR2Train t m
      in if currentTrain m' = currentTrain m then chR2_session ts m' else m')"

text \<open>
  The progress of a train of \<open>N\<close> pulses that started in the machine \<open>m0\<close>. While the train is
  counted, everything but the bookkeeping of the pulses is as in \<open>m0\<close>, and the LED writes
  since \<open>m0\<close> are those of \<open>pulseIndex\<close> whole pulses, followed by an \<open>on\<close> if a pulse is in
  progress. The train is running while it is counted and the pulse index is below \<open>N\<close>. When
  it is done, the LED writes since \<open>m0\<close> are those of \<open>N\<close> whole pulses, the pulse index is 0
  again and the train counter is one more; in single-train mode the result code has been sent
  and the state is the wait-request state. A reading \<open>t\<close> is due when the interval that the
  engine waits for has elapsed at \<open>t\<close>.
\<close>

definition chrimson_counted :: "int \<Rightarrow> machine \<Rightarrow> machine \<Rightarrow> bool" where
  "chrimson_counted N m0 m \<longleftrightarrow>
     params m = params m0 \<and> currentTrain m = currentTrain m0
     \<and> singleTrainMode m = singleTrainMode m0 \<and> state m = state m0
     \<and> UI_CHRIMSON_stim_in_progress m = UI_CHRIMSON_stim_in_progress m0
     \<and> BOSS_CHRIMSON_stim_in_progress m = BOSS_CHRIMSON_stim_in_progress m0
     \<and> results (out m) = results (out m0)
     \<and> 0 \<le> pulseIndex m \<and> pulseIndex m \<le> N \<and> (inPulse m \<longrightarrow> pulseIndex m < N)
     \<and> digital_writes PIN_CHRIMSON_STIM (out m) =
         digital_writes PIN_CHRIMSON_STIM (out m0) @ pulse_edges (nat (pulseIndex m))
           @ (if inPulse m then [True] else [])"

definition chrimson_running :: "int \<Rightarrow> machine \<Rightarrow> machine \<Rightarrow> bool" where
  "chrimson_running N m0 m \<longleftrightarrow>
     params m = params m0 \<and> currentTrain m = currentTrain m0
     \<and> singleTrainMode m = singleTrainMode m0 \<and> state m = state m0
     \<and> UI_CHRIMSON_stim_in_progress m = UI_CHRIMSON_stim_in_progress m0
     \<and> BOSS_CHRIMSON_stim_in_progress m = BOSS_CHRIMSON_stim_in_progress m0
     \<and> results (out m) = results (out m0)
     \<and> 0 \<le> pulseIndex m \<and> pulseIndex m < N
     \<and> digital_writes PIN_CHRIMSON_STIM (out m) =
         digital_writes PIN_CHRIMSON_STIM (out m0) @ pulse_edges (nat (pulseIndex m))
           @ (if inPulse m then [True] else [])"

definition chrimson_done :: "int \<Rightarrow> machine \<Rightarrow> machine \<Rightarrow> bool" where
  "chrimson_done N m0 m \<longleftrightarrow>
     params m = params m0 \<and> currentTrain m = currentTrain m0 + 1 \<and> pulseIndex m = 0 \<and> \<not> inPulse m
     \<and> digital_writes PIN_CHRIMSON_STIM (out m) =
         digital_writes PIN_CHRIMSON_STIM (out m0) @ pulse_edges (nat N)
     \<and> (if singleTrainMode m0
        then state m = WAIT_REQUEST_STATE \<and> \<not> singleTrainMode m
           \<and> \<not> UI_CHRIMSON_stim_in_progress m \<and> \<not> BOSS_CHRIMSON_stim_in_progress m
           \<and> results (out m) = results (out m0)
                @ [if UI_CHRIMSON_stim_in_progress m0 \<and> \<not> BOSS_CHRIMSON_stim_in_progress m0
                   then CODE_UI_CHRIMSON else CODE_CHRIMSON]
        else state m = state m0 \<and> results (out m) = results (out m0))"

definition chrimson_due :: "machine \<Rightarrow> millis \<Rightarrow> bool" where
  "chrimson_due m t \<longleftrightarrow>
     (if inPulse m then params m ! CHRIMSON_PULSE_WIDTH \<le> elapsed t (pulseTimer m)
      else params m ! CHRIMSON_IPI \<le> elapsed t (ipiTimer m))"

definition chR2_counted :: "int \<Rightarrow> machine \<Rightarrow> machine \<Rightarrow> bool" where
  "chR2_counted N m0 m \<longleftrightarrow>
     params m = params m0 \<and> currentTrain m = currentTrain m0
     \<and> singleTrainMode m = singleTrainMode m0 \<and> state m = state m0
     \<and> UI_CHR2_stim_in_progress m = UI_CHR2_stim_in_progress m0
     \<and> BOSS_CHR2_stim_in_progress m = BOSS_CHR2_stim_in_progress m0
     \<and> results (out m) = results (out m0)
     \<and> 0 \<le> pulseIndex m \<and> pulseIndex m \<le> N \<and> (inPulse m \<longrightarrow> pulseIndex m < N)
     \<and> digital_writes PIN_CHR2_STIM (out m) =
         digital_writes PIN_CHR2_STIM (out m0) @ pulse_edges (nat (pulseIndex m))
           @ (if inPulse m then [True] else [])"

definition chR2_running :: "int \<Rightarrow> machine \<Rightarrow> machine \<Rightarrow> bool" where
  "chR2_running N m0 m \<longleftrightarrow>
     params m = params m0 \<and> currentTrain m = currentTrain m0
     \<and> singleTrainMode m = singleTrainMode m0 \<and> state m = state m0
     \<and> UI_CHR2_stim_in_progress m = UI_CHR2_stim_in_progress m0
     \<and> BOSS_CHR2_stim_in_progress m = BOSS_CHR2_stim_in_progress m0
     \<and> results (out m) = results (out m0)
     \<and> 0 \<le> pulseIndex m \<and> pulseIndex m < N
     \<and> digital_writes PIN_CHR2_STIM (out m) =
         digital_writes PIN_CHR2_STIM (out m0) @ pulse_edges (nat (pulseIndex m))
           @ (if inPulse m then [True] else [])"

definition chR2_done :: "int \<Rightarrow> machine \<Rightarrow> machine \<Rightarrow> bool" where
  "chR2_done N m0 m \<longleftrightarrow>
     params m = params m0 \<and> currentTrain m = currentTrain m0 + 1 \<and> pulseIndex m = 0 \<and> \<not> inPulse m
     \<and> digital_writes PIN_CHR2_STIM (out m) =
         digital_writes PIN_CHR2_STIM (out m0) @ pulse_edges (nat N)
     \<and> (if singleTrainMode m0
        then state m = WAIT_REQUEST_STATE \<and> \<not> singleTrainMode m
           \<and> \<not> UI_CHR2_stim_in_progress m \<and> \<not> BOSS_CHR2_stim_in_progress m
           \<and> results (out m) = results (out m0)
                @ [if UI_CHR2_stim_in_progress m0 \<and> \<not> BOSS_CHR2_stim_in_progress m0
                   then CODE_UI_CHR2 else CODE_CHR2]
        else state m = state m0 \<and> results (out m) = results (out m0))"

definition chR2_due :: "machine \<Rightarrow> millis \<Rightarrow> bool" where
  "chR2_due m t \<longleftrightarrow>
     (if inPulse m then params m ! CHR2_PULSE_WIDTH \<le> elapsed t (pulseTimer m)
      else params m ! CHR2_IPI \<le> elapsed t (chR2ipiTimer m))"

text \<open>Host scenarios. \<open>chrimson_requested\<close> starts a host-requested Chrimson session at 4 ms.
  \<open>zero_width_session\<close> sets the Chrimson pulse width to 0 and starts a
  host-requested Chrimson session. \<open>mid_pulse\<close> starts a host-requested Chrimson session at
  4 ms and lets its first pulse begin at 200 ms. \<open>boss_session_NH\<close> starts a session from the
  hardware trigger.\<close>

definition chrimson_requested :: "inputs list" where
  "chrimson_requested = [quiet 1, host (CHR ''G'') 0 0 2, quiet 3, host (CHR ''C'') 0 0 4]"


definition mid_pulse :: "inputs list" where
  "mid_pulse = [quiet 1, host (CHR ''G'') 0 0 2, quiet 3, host (CHR ''C'') 0 0 4, quiet 200]"

definition boss_session_NH :: "inputs list" where
  "boss_session_NH =
     [quiet 1, host (CHR ''G'') 0 0 2, quiet 3, (quiet 4)\<lparr>pin_CHRIMSON_TRIGGER := True\<rparr>]"

section \<open>Basic facts\<close>

lemmas out_defs = sendMessage_def debugMessage_def digitalWrite_def analogWrite_def
  setAnalogOutput_def setChrimsonReceipt_def setChR2Receipt_def setChrimsonLED_def setChR2LED_def

lemma readHostMessage_fields [simp]:
  "command (readHostMessage inp m) = command_of inp"
  "state (readHostMessage inp m) = state m"
  "prevState (readHostMessage inp m) = prevState m"
  "hold (readHostMessage inp m) = hold m"
  "argcopy (readHostMessage inp m) = argcopy m"
  "params (readHostMessage inp m) = params m"
  by (simp_all add: readHostMessage_def command_of_def split: option.splits prod.splits)

lemma handleAnalogOutput_fields [simp]:
  "command (handleAnalogOutput m) = command m"
  "state (handleAnalogOutput m) = state m"
  "prevState (handleAnalogOutput m) = prevState m"
  "hold (handleAnalogOutput m) = hold m"
  "argcopy (handleAnalogOutput m) = argcopy m"
  "params (handleAnalogOutput m) = params m"
  by (simp_all add: handleAnalogOutput_def out_defs)

lemma id_in_range_cong:
  "argcopy m' = argcopy m \<Longrightarrow> params m' = params m \<Longrightarrow> id_in_range m' = id_in_range m"
  by (simp add: id_in_range_def)

lemma loop_step_update_params:
  assumes "state m = UPDATE_PARAMS_STATE" "command_of inp \<noteq> CHR ''R''"
  shows "loop_step inp m = update_params_state (handleAnalogOutput (readHostMessage inp m))"
  using assms by (simp add: loop_step_def Let_def)

lemma update_params_state_stay:
  assumes "hold m \<or> id_in_range m"
    and "command m \<noteq> CHR ''O''" "command m \<noteq> CHR ''Q''"
  shows "\<exists>m'. update_params_state m = Inr m' \<and> state m' = UPDATE_PARAMS_STATE
            \<and> prevState m' = prevState m \<and> hold m'"
  using assms
  by (cases "hold m")
     (simp_all add: update_params_state_def update_params_entry_def id_in_range_def checkQuit_def
        checkUpdateComplete_def params_write_def out_defs)

lemma update_params_state_done:
  assumes "hold m \<or> id_in_range m" and "command m = CHR ''O''"
  shows "\<exists>m'. update_params_state m = Inr m' \<and> state m' = prevState m"
  using assms
  by (cases "hold m")
     (simp_all add: update_params_state_def update_params_entry_def id_in_range_def checkQuit_def
        checkUpdateComplete_def params_write_def out_defs)

lemma update_params_state_quit:
  assumes "hold m \<or> id_in_range m" and "command m = CHR ''Q''"
  shows "\<exists>m'. update_params_state m = Inr m' \<and> state m' = IDLE_STATE"
  using assms
  by (cases "hold m")
     (simp_all add: update_params_state_def update_params_entry_def id_in_range_def checkQuit_def
        checkUpdateComplete_def params_write_def out_defs)

lemma checkParamUpdate_P:
  assumes "command m = CHR ''P''" "checkParamUpdate m = Inr (b, m')"
  shows "b \<and> state m' = UPDATE_PARAMS_STATE \<and> prevState m' = prevState m \<and> id_in_range m'"
  using assms
  by (auto simp: checkParamUpdate_def params_write_def id_in_range_def out_defs Let_def
       split: if_splits)

lemma idle_entry_fields [simp]:
  "command (idle_entry m) = command m" "prevState (idle_entry m) = state m"
  "state (idle_entry m) = state m"
  by (auto simp: idle_entry_def out_defs Let_def)

lemma state_entry_fields [simp]:
  "command (state_entry t m) = command m" "prevState (state_entry t m) = state m"
  "state (state_entry t m) = state m"
  by (auto simp: state_entry_def out_defs)

lemma checkPhotometryLED_fields [simp]:
  "command (checkPhotometryLED now m) = command m"
  "prevState (checkPhotometryLED now m) = prevState m"
  "state (checkPhotometryLED now m) = state m"
  by (simp_all add: checkPhotometryLED_def setPhotometryLED_def out_defs Let_def)

lemma checkTrialStart_fields [simp]:
  "command (checkTrialStart inp m) = command m"
  "prevState (checkTrialStart inp m) = prevState m"
  "state (checkTrialStart inp m) = state m"
  by (simp_all add: checkTrialStart_def out_defs)

lemma checkReferenceEvent_fields [simp]:
  "command (checkReferenceEvent inp m) = command m"
  "prevState (checkReferenceEvent inp m) = prevState m"
  "state (checkReferenceEvent inp m) = state m"
  by (simp_all add: checkReferenceEvent_def out_defs)

lemma idle_state_P:
  assumes "command m = CHR ''P''" "idle_state inp m = Inr m'"
  shows "state m' = UPDATE_PARAMS_STATE \<and> prevState m' = state m \<and> id_in_range m'"
proof -
  let ?m2 = "checkPhotometryLED (millis_now inp) (idle_entry m)"
  have c: "command ?m2 = CHR ''P''" using assms(1) by simp
  have "idle_state inp m = (case checkParamUpdate ?m2 of
              Inl e \<Rightarrow> Inl e
            | Inr (True, m2) \<Rightarrow> Inr m2
            | Inr (False, m2) \<Rightarrow> Inr (m2\<lparr>state := IDLE_STATE\<rparr>))"
    using assms(1) by (simp add: idle_state_def Let_def)
  with assms(2) obtain b where "checkParamUpdate ?m2 = Inr (b, m')" "b"
    using checkParamUpdate_P [OF c]
    by (auto split: sum.splits prod.splits bool.splits)
  with checkParamUpdate_P [OF c, of b m'] show ?thesis by simp
qed

lemma wait_request_state_P:
  assumes "command m = CHR ''P''" "wait_request_state inp m = Inr m'"
  shows "state m' = UPDATE_PARAMS_STATE \<and> prevState m' = state m \<and> id_in_range m'"
proof -
  let ?m2 = "checkReferenceEvent inp (checkTrialStart inp (wait_request_entry m))"
  have c: "command ?m2 = CHR ''P''" using assms(1) by (simp add: wait_request_entry_def)
  have q: "checkQuit (wait_request_entry m) = (False, wait_request_entry m)"
    using assms(1) by (simp add: checkQuit_def wait_request_entry_def)
  from assms(2) obtain b where "checkParamUpdate ?m2 = Inr (b, m')" "b"
    using checkParamUpdate_P [OF c]
    by (auto simp: wait_request_state_def q split: sum.splits prod.splits bool.splits)
  with checkParamUpdate_P [OF c, of b m'] show ?thesis by (simp add: wait_request_entry_def)
qed

lemma update_params_enter:
  assumes "state m0 = INIT \<or> state m0 = IDLE_STATE \<or> state m0 = WAIT_REQUEST_STATE"
    and "command_of p = CHR ''P''" and "loop_step p m0 = Inr m1"
  shows "state m1 = UPDATE_PARAMS_STATE \<and> prevState m1 = state m0 \<and> id_in_range m1"
proof -
  let ?m = "handleAnalogOutput (readHostMessage p m0)"
  have c: "command ?m = CHR ''P''" "state ?m = state m0" using assms(2) by simp_all
  from assms(1,2,3) have "idle_state p ?m = Inr m1 \<or> wait_request_state p ?m = Inr m1"
    by (auto simp: loop_step_def Let_def)
  then show ?thesis
    using idle_state_P [OF c(1), of p m1] wait_request_state_P [OF c(1), of p m1] c(2) by auto
qed

lemma update_params_stay:
  assumes "state m = UPDATE_PARAMS_STATE" and "hold m \<or> id_in_range m"
    and "command_of inp \<noteq> CHR ''O''" "command_of inp \<noteq> CHR ''Q''" "command_of inp \<noteq> CHR ''R''"
  shows "\<exists>m'. loop_step inp m = Inr m' \<and> state m' = UPDATE_PARAMS_STATE
            \<and> prevState m' = prevState m \<and> hold m'"
proof -
  let ?m = "handleAnalogOutput (readHostMessage inp m)"
  have "hold ?m \<or> id_in_range ?m" "command ?m \<noteq> CHR ''O''" "command ?m \<noteq> CHR ''Q''"
    using assms by (simp_all add: id_in_range_def)
  from update_params_state_stay [OF this] show ?thesis
    using assms(1,5) by (simp add: loop_step_update_params)
qed

lemma update_params_done:
  assumes "state m = UPDATE_PARAMS_STATE" and "hold m \<or> id_in_range m"
    and "command_of inp = CHR ''O''"
  shows "\<exists>m'. loop_step inp m = Inr m' \<and> state m' = prevState m"
proof -
  let ?m = "handleAnalogOutput (readHostMessage inp m)"
  have "hold ?m \<or> id_in_range ?m" "command ?m = CHR ''O''"
    using assms by (simp_all add: id_in_range_def)
  from update_params_state_done [OF this] show ?thesis
    using assms(1,3) by (simp add: loop_step_update_params)
qed

lemma update_params_stay_run:
  assumes "\<forall>i \<in> set is. command_of i \<noteq> CHR ''O'' \<and> command_of i \<noteq> CHR ''Q''
             \<and> command_of i \<noteq> CHR ''R''"
    and "state m = UPDATE_PARAMS_STATE" and "hold m \<or> id_in_range m"
  shows "\<exists>m'. run is m = Inr m' \<and> state m' = UPDATE_PARAMS_STATE
            \<and> prevState m' = prevState m \<and> (hold m' \<or> id_in_range m')"
  using assms
proof (induction "is" arbitrary: m)
  case Nil
  then show ?case by simp
next
  case (Cons i "is")
  from Cons.prems obtain m1 where s1: "loop_step i m = Inr m1" "state m1 = UPDATE_PARAMS_STATE"
      "prevState m1 = prevState m" "hold m1"
    using update_params_stay [of m i] by auto
  from Cons.IH [of m1] Cons.prems s1 show ?case by auto
qed

lemmas boot_defs = booted_def power_on_def default_params_def mySetup_def hostInit_def

lemmas step_defs = loop_step_def readHostMessage_def handleAnalogOutput_def idle_state_def
  idle_entry_def wait_request_state_def wait_request_entry_def state_entry_def init_exp_def
  update_params_state_def update_params_entry_def checkQuit_def checkParamUpdate_def
  params_write_def checkUpdateComplete_def checkPhotometryLED_def setPhotometryLED_def
  checkTrialStart_def checkReferenceEvent_def checkChrimsonRequest_def checkChr2Request_def
  signedMillis_def



lemmas out_defs_NH = setChrimsonLED_NH_def setChR2LED_NH_def

lemma level_from_append: "level_from p v (es @ es') = level_from p (level_from p v es) es'"
  by (induction p v es rule: level_from.induct) simp_all

lemma level_append [simp]: "level p (es @ es') = level_from p (level p es) es'"
  by (simp add: level_def level_from_append)

lemma results_append [simp]: "results (es @ es') = results es @ results es'"
  by (induction es rule: results.induct) simp_all

lemma state_entry_out [simp]:
  "results (out (state_entry t m)) = results (out m)"
  "level p (out (state_entry t m)) = level p (out m)"
  by (simp_all add: state_entry_def out_defs)

lemma state_entry_frame [simp]:
  "params (state_entry t m) = params m"
  "BOSS_CHRIMSON_stim_in_progress (state_entry t m) = BOSS_CHRIMSON_stim_in_progress m"
  by (simp_all add: state_entry_def out_defs)

lemma readHostMessage_out [simp]:
  "out (readHostMessage inp m) = out m"
  "BOSS_CHRIMSON_stim_in_progress (readHostMessage inp m) = BOSS_CHRIMSON_stim_in_progress m"
  by (simp_all add: readHostMessage_def split: option.splits prod.splits)

lemma checkPhotometryLED_NH_out [simp]:
  "results (out (checkPhotometryLED_NH now m)) = results (out m)"
  "p \<noteq> PIN_PHOTOMETRY_LED \<Longrightarrow> level p (out (checkPhotometryLED_NH now m)) = level p (out m)"
  by (simp_all add: checkPhotometryLED_NH_def setPhotometryLED_NH_def out_defs Let_def)

lemma checkPhotometryLED_NH_frame [simp]:
  "BOSS_CHRIMSON_stim_in_progress (checkPhotometryLED_NH now m) = BOSS_CHRIMSON_stim_in_progress m"
  "UI_CHRIMSON_stim_in_progress (checkPhotometryLED_NH now m) = UI_CHRIMSON_stim_in_progress m"
  "duty_state_CHRIMSON (checkPhotometryLED_NH now m) = duty_state_CHRIMSON m"
  by (simp_all add: checkPhotometryLED_NH_def setPhotometryLED_NH_def out_defs Let_def)

lemma endChrimsonStim_NH_effect [simp]:
  "results (out (endChrimsonStim_NH k c t now m)) = results (out m) @ [c]"
  "level PIN_CHRIMSON_STIM (out (endChrimsonStim_NH k c t now m)) = False"
  "BOSS_CHRIMSON_stim_in_progress (endChrimsonStim_NH k c t now m) = False"
  "UI_CHRIMSON_stim_in_progress (endChrimsonStim_NH k c t now m) = False"
  "duty_state_CHRIMSON (endChrimsonStim_NH k c t now m) = False"
  "resultCode (endChrimsonStim_NH k c t now m) = None"
  "command (endChrimsonStim_NH k c t now m) = command m"
  by (simp_all add: endChrimsonStim_NH_def out_defs out_defs_NH Let_def)

lemma endChR2Stim_NH_effect [simp]:
  "results (out (endChR2Stim_NH k c t now m)) = results (out m) @ [c]"
  "level PIN_CHR2_STIM (out (endChR2Stim_NH k c t now m)) = False"
  "BOSS_CHR2_stim_in_progress (endChR2Stim_NH k c t now m) = False"
  "UI_CHR2_stim_in_progress (endChR2Stim_NH k c t now m) = False"
  "duty_state_CHR2 (endChR2Stim_NH k c t now m) = False"
  "resultCode (endChR2Stim_NH k c t now m) = None"
  "command (endChR2Stim_NH k c t now m) = command m"
  by (simp_all add: endChR2Stim_NH_def out_defs out_defs_NH Let_def)

lemma digital_writes_append [simp]:
  "digital_writes p (es @ es') = digital_writes p es @ digital_writes p es'"
  by (induction p es rule: digital_writes.induct) simp_all

lemma power_writes_append [simp]:
  "power_writes p (es @ es') = power_writes p es @ power_writes p es'"
  by (induction p es rule: power_writes.induct) simp_all

lemma delays_append [simp]: "delays (es @ es') = delays es @ delays es'"
  by (induction es rule: delays.induct) simp_all

lemma elapsed_self [simp]: "elapsed now now = 0"
  by (simp add: elapsed_def)

lemmas chrimson_engine_defs = runChrimsonTrain_def chrimsonStartPulse_def chrimsonEndPulse_def
  chrimsonTrainComplete_def chrimsonSingleTrainResult_def

lemmas chR2_engine_defs = runChR2Train_def chR2StartPulse_def chR2EndPulse_def
  chR2TrainComplete_def chR2SingleTrainResult_def

lemma checkStimChrimson_command [simp]: "command (checkStimChrimson now m) = command m"
  by (simp add: checkStimChrimson_def chrimson_engine_defs out_defs Let_def)

lemma stimulateChrimson_fields [simp]:
  "pulseIndex (stimulateChrimson m) = 0" "inPulse (stimulateChrimson m) = False"
  "currentTrain (stimulateChrimson m) = 0" "singleTrainMode (stimulateChrimson m) = True"
  "pulseTimer (stimulateChrimson m) = pulseTimer m" "ipiTimer (stimulateChrimson m) = ipiTimer m"
  "level p (out (stimulateChrimson m)) = level p (out m)"
  "BOSS_CHRIMSON_stim_in_progress (stimulateChrimson m) = BOSS_CHRIMSON_stim_in_progress m"
  "UI_CHRIMSON_stim_in_progress (stimulateChrimson m) = UI_CHRIMSON_stim_in_progress m"
  by (simp_all add: stimulateChrimson_def out_defs)

section \<open>The parameter store write (C9)\<close>



section \<open>Holding in the parameter update state (C3)\<close>

text \<open>
  C3, as stated, fails: the update state is also left by the quit command. After the host
  message \<^verbatim>\<open>P 4 20\<close> the machine is in the update state; the message \<^verbatim>\<open>Q\<close> then takes it to the
  idle state, and no \<^verbatim>\<open>O\<close> was received.
\<close>

theorem update_params_left_by_quit:
  "final_state (run [host (CHR ''P'') 4 20 1] booted) = Some UPDATE_PARAMS_STATE
   \<and> final_state (run [host (CHR ''P'') 4 20 1, host (CHR ''Q'') 0 0 2] booted) = Some IDLE_STATE"
  by (simp add: final_state_def host_def boot_defs step_defs out_defs Let_def)

text \<open>
  C3, amended. A parameter-update request \<^verbatim>\<open>P\<close> accepted in the initial, idle or wait-request
  state takes the machine to the update state. It stays there on every later pass of the loop
  whose command is none of \<^verbatim>\<open>O\<close>, \<^verbatim>\<open>Q\<close> and \<^verbatim>\<open>R\<close>, however many passes there are; on the command
  \<^verbatim>\<open>O\<close> it returns to the state that was active before the request.
\<close>

theorem update_params_holds_until_complete:
  assumes "state m0 = INIT \<or> state m0 = IDLE_STATE \<or> state m0 = WAIT_REQUEST_STATE"
    and "command_of p = CHR ''P''" and "loop_step p m0 = Inr m1"
    and "\<forall>i \<in> set is. command_of i \<noteq> CHR ''O'' \<and> command_of i \<noteq> CHR ''Q''
             \<and> command_of i \<noteq> CHR ''R''"
    and "command_of over = CHR ''O''"
  shows "state m1 = UPDATE_PARAMS_STATE \<and>
         (\<exists>m2. run is m1 = Inr m2 \<and> state m2 = UPDATE_PARAMS_STATE \<and>
            (\<exists>m3. loop_step over m2 = Inr m3 \<and> state m3 = state m0))"
proof -
  from update_params_enter [OF assms(1,2,3)]
  have e: "state m1 = UPDATE_PARAMS_STATE" "prevState m1 = state m0" "id_in_range m1" by simp_all
  from update_params_stay_run [OF assms(4) e(1)] e(3)
  obtain m2 where s: "run is m1 = Inr m2" "state m2 = UPDATE_PARAMS_STATE"
      "prevState m2 = prevState m1" "hold m2 \<or> id_in_range m2" by auto
  from update_params_done [OF s(2) s(4) assms(5)] obtain m3
    where "loop_step over m2 = Inr m3" "state m3 = prevState m2" by auto
  with e s show ?thesis by auto
qed


theorem update_params_holds_until_complete_witness:
  "\<exists>m1. loop_step (host (CHR ''P'') 4 20 1) booted = Inr m1 \<and> state m1 = UPDATE_PARAMS_STATE
     \<and> (\<exists>m2. run [quiet 2, host (CHR ''A'') 1 100 3, quiet 4] m1 = Inr m2
           \<and> state m2 = UPDATE_PARAMS_STATE
           \<and> (\<exists>m3. loop_step (host (CHR ''O'') 0 0 5) m2 = Inr m3 \<and> state m3 = INIT))"
proof -
  have "final_state (loop_step (host (CHR ''P'') 4 20 1) booted) = Some UPDATE_PARAMS_STATE"
    by (simp add: final_state_def host_def boot_defs step_defs out_defs Let_def)
  then obtain m1 where l: "loop_step (host (CHR ''P'') 4 20 1) booted = Inr m1"
    by (auto simp: final_state_def split: sum.splits)
  have s: "state booted = INIT \<or> state booted = IDLE_STATE \<or> state booted = WAIT_REQUEST_STATE"
    by (simp add: boot_defs out_defs Let_def)
  show ?thesis
    using update_params_holds_until_complete
            [OF s _ l, of "[quiet 2, host (CHR ''A'') 1 100 3, quiet 4]" "host (CHR ''O'') 0 0 5"] l s
    by (simp add: command_of_def host_def quiet_def boot_defs out_defs Let_def)
qed

section \<open>The warning on entry to the update state (C7)\<close>

text \<open>
  C7 is what the comment of \<^verbatim>\<open>update_params_state\<close> announces (``Give a warning if stim in
  progress''), and both files miss it. The Svedberg function never calls \<^verbatim>\<open>checkWarnings\<close>:
  after the host messages \<^verbatim>\<open>G\<close>, \<^verbatim>\<open>C\<close>, \<^verbatim>\<open>Q\<close> and \<^verbatim>\<open>P 5 50\<close> the update state is entered with the UI
  Chrimson flag set, its entry action runs, and no warning is sent. The NH function calls
  \<^verbatim>\<open>checkWarnings\<close>, which tests the two Chrimson flags only: after \<^verbatim>\<open>G\<close>, \<^verbatim>\<open>D\<close>, \<^verbatim>\<open>Q\<close> and
  \<^verbatim>\<open>P 5 50\<close> the update state is entered with the UI ChR2 flag set and no warning is sent.
\<close>

theorem update_params_entry_without_warning:
  "(let r = run [quiet 1, host (CHR ''G'') 0 0 2, quiet 3, host (CHR ''C'') 0 0 4,
                 host (CHR ''Q'') 0 0 5, host (CHR ''P'') 5 50 6, quiet 7] booted
    in final_state r = Some UPDATE_PARAMS_STATE
       \<and> session_flags r = Some (False, True, False, False)
       \<and> filter is_warning (out_of r) = [])
   \<and> (let r = run_NH [quiet 1, host (CHR ''G'') 0 0 2, quiet 3, host (CHR ''D'') 0 0 4,
                       host (CHR ''Q'') 0 0 5, host (CHR ''P'') 5 50 6, quiet 7] booted_NH
      in final_state r = Some UPDATE_PARAMS_STATE
         \<and> session_flags r = Some (False, False, False, True)
         \<and> filter is_warning (out_of r) = [])"
  by code_simp

text \<open>Where the NH file does warn: with a Chrimson flag set, the same messages with \<^verbatim>\<open>C\<close> in
  place of \<^verbatim>\<open>D\<close> give one warning text and one error event marker, sent by the pass that
  enters the state and not again by the next pass.\<close>

lemma update_params_entry_warning_NH:
  "(let r = run_NH [quiet 1, host (CHR ''G'') 0 0 2, quiet 3, host (CHR ''C'') 0 0 4,
                    host (CHR ''Q'') 0 0 5, host (CHR ''P'') 5 50 6, quiet 7] booted_NH
    in filter is_warning (out_of r) =
         [Send (Warning (STR ''Updated params during ongoing Chrimson stimulation'')),
          Send (EventMsg EVENT_CHRIMSON_ERROR 4)])
   \<and> (let r = run_NH [quiet 1, host (CHR ''G'') 0 0 2, quiet 3, host (CHR ''C'') 0 0 4,
                      host (CHR ''Q'') 0 0 5, host (CHR ''P'') 5 50 6, quiet 7, quiet 8] booted_NH
      in filter is_warning (out_of r) =
           [Send (Warning (STR ''Updated params during ongoing Chrimson stimulation'')),
            Send (EventMsg EVENT_CHRIMSON_ERROR 4)])"
  by code_simp

section \<open>Recomputing the dependent parameters (C1)\<close>

text \<open>
  C1 is what the entry action of the NH \<^verbatim>\<open>update_params_state\<close> does for the triples CHRIMSON,
  UI\_CHRIMSON and CHR2. It has no block for the fourth triple, UI\_CHR2: after the host message
  \<^verbatim>\<open>P 21 20\<close>, which sets \<^verbatim>\<open>UI_CHR2_FREQUENCY\<close> to 20, the period is still 100 and not 1000/20,
  and the up and down times are still 35 and 65.
\<close>

theorem recompute_missing_for_UI_CHR2:
  "(let ps = params_of (run_NH [host (CHR ''P'') 21 20 1, quiet 2] booted_NH)
    in ps ! UI_CHR2_FREQUENCY = 20 \<and> ps ! UI_CHR2_PERIOD = 100
       \<and> ps ! UI_CHR2_UP_TIME = 35 \<and> ps ! UI_CHR2_DOWN_TIME = 65
       \<and> ps ! UI_CHR2_PERIOD \<noteq> 1000 / ps ! UI_CHR2_FREQUENCY)"
  by code_simp

text \<open>The sibling triple CHR2 is recomputed: \<^verbatim>\<open>P 9 20\<close> sets \<^verbatim>\<open>CHR2_FREQUENCY\<close> to 20, and the
  period becomes 50, the up time 17.5 (35 per cent of 50) and the down time 32.5.\<close>

lemma recompute_CHR2_frequency:
  "(let ps = params_of (run_NH [host (CHR ''P'') 9 20 1, quiet 2] booted_NH)
    in ps ! CHR2_FREQUENCY = 20 \<and> ps ! CHR2_PERIOD = 1000 / ps ! CHR2_FREQUENCY
       \<and> ps ! CHR2_UP_TIME + ps ! CHR2_DOWN_TIME = ps ! CHR2_PERIOD
       \<and> ps ! CHR2_DUTY_CYCLE = 100 * ps ! CHR2_UP_TIME / ps ! CHR2_PERIOD)"
  by code_simp

section \<open>Cancellation (C6)\<close>

text \<open>
  C6, as stated, fails. In the NH file the cancel input is read for a session that the
  hardware trigger started (the BOSS flag) and not for one that the host started (the UI
  flag): with cancellation enabled, a UI Chrimson session in progress and the cancel pin
  high, the pass leaves the session running, the LED on, and sends no result code.
\<close>

theorem cancel_ignored_for_UI_session:
  "(let r = run_NH [quiet 1, host (CHR ''G'') 0 0 2, quiet 3, host (CHR ''C'') 0 0 4,
                    (quiet 5)\<lparr>pin_CANCEL := True\<rparr>] booted_NH
    in final_state r = Some CHRIMSON_STIM_STATE
       \<and> session_flags r = Some (False, True, False, False)
       \<and> params_of r ! CANCEL_ENABLED = 1
       \<and> level PIN_CHRIMSON_STIM (out_of r) \<and> results (out_of r) = [])"
  by code_simp

lemma cancel_tick_NH:
  assumes "params m ! CANCEL_ENABLED \<noteq> 0" "pin_CANCEL inp" "BOSS_CHRIMSON_stim_in_progress m"
    and "state m = CHRIMSON_STIM_STATE" "\<not> pin_CHRIMSON_TRIGGER inp"
    and "command_of inp \<noteq> CHR ''Q''" "command_of inp \<noteq> CHR ''R''" "command_of inp \<noteq> CHR ''C''"
  shows "\<exists>m'. loop_step_NH inp m = Inr m' \<and> state m' = WAIT_REQUEST_STATE
           \<and> \<not> BOSS_CHRIMSON_stim_in_progress m' \<and> \<not> UI_CHRIMSON_stim_in_progress m'
           \<and> \<not> duty_state_CHRIMSON m'
           \<and> level PIN_CHRIMSON_STIM (out m') = False
           \<and> results (out m') = results (out m) @ [CODE_CHRIMSON_CANCEL]"
proof -
  let ?m1 = "Chrimson_stim_entry (readHostMessage inp m)"
  have a: "params ?m1 ! CANCEL_ENABLED \<noteq> 0" "BOSS_CHRIMSON_stim_in_progress ?m1"
      "command ?m1 = command_of inp"
    using assms by (simp_all add: Chrimson_stim_entry_def)
  let ?m2 = "checkStimChrimson_NH inp ?m1"
  have b: "?m2 = endChrimsonStim_NH EVENT_BOSS_CHRIMSON_STIM_END CODE_CHRIMSON_CANCEL
                (STR ''CANCELED BY EVENT INPUT - End Boss CHRIMSON stim (lamp OFF).'')
                (millis_now inp) ?m1"
    using a assms(2) by (simp add: checkStimChrimson_NH_def Let_def)
  have d: "loop_step_NH inp m = Inr (let m4 = checkPhotometryLED_NH (millis_now inp) ?m2
                in if \<not> UI_CHRIMSON_stim_in_progress m4 \<and> \<not> BOSS_CHRIMSON_stim_in_progress m4
                   then m4\<lparr>state := WAIT_REQUEST_STATE\<rparr> else m4)"
    using assms(4-8) a(3)
    by (simp add: b loop_step_NH_def Chrimson_stim_state_NH_def checkQuit_def
          checkChrimsonRequest_NH_def Let_def)
  show ?thesis
    unfolding d b by (simp add: Let_def Chrimson_stim_entry_def)
qed

text \<open>
  C6, amended. In the NH variant, when cancellation is enabled and the cancel input is high,
  the stimulation check of a channel whose hardware-triggered (BOSS) session is in progress
  ends the session at once: it clears both session flags of the channel and its duty state,
  turns the channel output off, and sends the cancellation result code and no other result
  code. A pass of the loop in the Chrimson stimulation state with no quit, reset or new
  request does so and returns to the wait-request state.
\<close>

theorem cancel_ends_BOSS_session:
  assumes "params m ! CANCEL_ENABLED \<noteq> 0" and "pin_CANCEL inp"
  shows "(BOSS_CHRIMSON_stim_in_progress m \<longrightarrow>
            \<not> BOSS_CHRIMSON_stim_in_progress (checkStimChrimson_NH inp m)
          \<and> \<not> UI_CHRIMSON_stim_in_progress (checkStimChrimson_NH inp m)
          \<and> \<not> duty_state_CHRIMSON (checkStimChrimson_NH inp m)
          \<and> level PIN_CHRIMSON_STIM (out (checkStimChrimson_NH inp m)) = False
          \<and> results (out (checkStimChrimson_NH inp m)) = results (out m) @ [CODE_CHRIMSON_CANCEL])
       \<and> (BOSS_CHR2_stim_in_progress m \<longrightarrow>
            \<not> BOSS_CHR2_stim_in_progress (checkStimChR2_NH inp m)
          \<and> \<not> UI_CHR2_stim_in_progress (checkStimChR2_NH inp m)
          \<and> \<not> duty_state_CHR2 (checkStimChR2_NH inp m)
          \<and> level PIN_CHR2_STIM (out (checkStimChR2_NH inp m)) = False
          \<and> results (out (checkStimChR2_NH inp m)) = results (out m) @ [CODE_CHR2_CANCEL])
       \<and> (BOSS_CHRIMSON_stim_in_progress m \<and> state m = CHRIMSON_STIM_STATE
            \<and> \<not> pin_CHRIMSON_TRIGGER inp \<and> command_of inp \<noteq> CHR ''Q''
            \<and> command_of inp \<noteq> CHR ''R'' \<and> command_of inp \<noteq> CHR ''C'' \<longrightarrow>
            (\<exists>m'. loop_step_NH inp m = Inr m' \<and> state m' = WAIT_REQUEST_STATE
               \<and> \<not> BOSS_CHRIMSON_stim_in_progress m' \<and> \<not> UI_CHRIMSON_stim_in_progress m'
               \<and> \<not> duty_state_CHRIMSON m'
               \<and> level PIN_CHRIMSON_STIM (out m') = False
               \<and> results (out m') = results (out m) @ [CODE_CHRIMSON_CANCEL]))"
proof (intro conjI impI)
  assume "BOSS_CHRIMSON_stim_in_progress m \<and> state m = CHRIMSON_STIM_STATE
            \<and> \<not> pin_CHRIMSON_TRIGGER inp \<and> command_of inp \<noteq> CHR ''Q''
            \<and> command_of inp \<noteq> CHR ''R'' \<and> command_of inp \<noteq> CHR ''C''"
  then show "\<exists>m'. loop_step_NH inp m = Inr m' \<and> state m' = WAIT_REQUEST_STATE
               \<and> \<not> BOSS_CHRIMSON_stim_in_progress m' \<and> \<not> UI_CHRIMSON_stim_in_progress m'
               \<and> \<not> duty_state_CHRIMSON m'
               \<and> level PIN_CHRIMSON_STIM (out m') = False
               \<and> results (out m') = results (out m) @ [CODE_CHRIMSON_CANCEL]"
    using cancel_tick_NH [of m inp] assms by simp
qed (use assms in \<open>simp_all add: checkStimChrimson_NH_def checkStimChR2_NH_def Let_def\<close>)

theorem cancel_ends_BOSS_session_witness:
  "(let m = result_or booted_NH (run_NH boss_session_NH booted_NH);
        inp = (quiet 5)\<lparr>pin_CANCEL := True\<rparr>
    in BOSS_CHRIMSON_stim_in_progress m \<and> state m = CHRIMSON_STIM_STATE
       \<and> level PIN_CHRIMSON_STIM (out m)
       \<and> results (out (checkStimChrimson_NH inp m)) = results (out m) @ [CODE_CHRIMSON_CANCEL]
       \<and> (\<exists>m'. loop_step_NH inp m = Inr m' \<and> state m' = WAIT_REQUEST_STATE
             \<and> \<not> BOSS_CHRIMSON_stim_in_progress m' \<and> \<not> UI_CHRIMSON_stim_in_progress m'
             \<and> \<not> duty_state_CHRIMSON m'
             \<and> level PIN_CHRIMSON_STIM (out m') = False
             \<and> results (out m') = results (out m) @ [CODE_CHRIMSON_CANCEL]))"
proof -
  let ?m = "result_or booted_NH (run_NH boss_session_NH booted_NH)"
  let ?inp = "(quiet 5)\<lparr>pin_CANCEL := True\<rparr>"
  have h: "params ?m ! CANCEL_ENABLED \<noteq> 0 \<and> BOSS_CHRIMSON_stim_in_progress ?m
             \<and> state ?m = CHRIMSON_STIM_STATE \<and> level PIN_CHRIMSON_STIM (out ?m)"
    by code_simp
  have i: "pin_CANCEL ?inp" "\<not> pin_CHRIMSON_TRIGGER ?inp" "command_of ?inp = CHR '' ''"
    by (simp_all add: quiet_def command_of_def)
  from h have h1: "params ?m ! CANCEL_ENABLED \<noteq> 0" by simp
  show ?thesis
    using cancel_ends_BOSS_session [OF h1 i(1)] h i by (simp add: Let_def)
qed

section \<open>One edge for each call of the train function (C4)\<close>




section \<open>A new request during a train (C5)\<close>

text \<open>
  C5, as stated, fails. A host request for Chrimson is accepted at 4 ms and its first pulse
  starts at 200 ms (pulse width 10 ms). A second request at 205 ms, during that pulse, resets
  the pulse index and clears the in-pulse flag, but the LED stays on and neither timer is
  restarted: the pulse timer still reads 200 and the inter-pulse timer 0. The pulse of the
  superseded train is not ended, and the next pulse is timed from the old inter-pulse timer.
\<close>

theorem request_mid_pulse_leaves_LED_on:
  "(let r = run mid_pulse booted
    in session_of r = Some (0, True, 0, True, 200, 0) \<and> level PIN_CHRIMSON_STIM (out_of r))
   \<and> (let r = run (mid_pulse @ [host (CHR ''C'') 0 0 205]) booted
      in session_of r = Some (0, False, 0, True, 200, 0) \<and> level PIN_CHRIMSON_STIM (out_of r))"
  by code_simp

lemma checkChrimsonRequest_restart:
  assumes "pin_CHRIMSON_TRIGGER inp \<or> command a = CHR ''C''"
  shows "fst (checkChrimsonRequest inp a)
       \<and> state (snd (checkChrimsonRequest inp a)) = CHRIMSON_STIM_STATE
       \<and> pulseIndex (snd (checkChrimsonRequest inp a)) = 0
       \<and> \<not> inPulse (snd (checkChrimsonRequest inp a))
       \<and> currentTrain (snd (checkChrimsonRequest inp a)) = 0
       \<and> singleTrainMode (snd (checkChrimsonRequest inp a))
       \<and> BOSS_CHRIMSON_stim_in_progress (snd (checkChrimsonRequest inp a)) = pin_CHRIMSON_TRIGGER inp
       \<and> UI_CHRIMSON_stim_in_progress (snd (checkChrimsonRequest inp a)) = (\<not> pin_CHRIMSON_TRIGGER inp)
       \<and> pulseTimer (snd (checkChrimsonRequest inp a)) = pulseTimer a
       \<and> ipiTimer (snd (checkChrimsonRequest inp a)) = ipiTimer a
       \<and> level PIN_CHRIMSON_STIM (out (snd (checkChrimsonRequest inp a)))
           = level PIN_CHRIMSON_STIM (out a)"
  using assms
  by (cases "pin_CHRIMSON_TRIGGER inp")
     (simp_all add: checkChrimsonRequest_def Let_def setChrimsonReceipt_def digitalWrite_def
        sendMessage_def debugMessage_def)

text \<open>
  C5, amended. On every pass of the loop in the Chrimson stimulation state that observes a
  new Chrimson request (trigger pin high or command \<^verbatim>\<open>C\<close>, and neither quit nor reset), the
  session is restarted: the pulse index and the train count are 0, the in-pulse flag is clear,
  single-train mode is set, the origin flags are those of the new request, and the state is
  the Chrimson stimulation state. The request restarts no timer and writes no LED: the pulse
  timer, the inter-pulse timer and the LED level are those that this pass's call of the train
  function left.
\<close>

theorem chrimson_request_restarts_session:
  assumes "state m = CHRIMSON_STIM_STATE"
    and "command_of inp \<noteq> CHR ''Q''" "command_of inp \<noteq> CHR ''R''"
    and "pin_CHRIMSON_TRIGGER inp \<or> command_of inp = CHR ''C''"
  shows "let a = checkStimChrimson (millis_now inp)
                   (Chrimson_stim_entry (handleAnalogOutput (readHostMessage inp m)))
         in \<exists>m'. loop_step inp m = Inr m' \<and> state m' = CHRIMSON_STIM_STATE
              \<and> pulseIndex m' = 0 \<and> \<not> inPulse m' \<and> currentTrain m' = 0 \<and> singleTrainMode m'
              \<and> BOSS_CHRIMSON_stim_in_progress m' = pin_CHRIMSON_TRIGGER inp
              \<and> UI_CHRIMSON_stim_in_progress m' = (\<not> pin_CHRIMSON_TRIGGER inp)
              \<and> pulseTimer m' = pulseTimer a \<and> ipiTimer m' = ipiTimer a
              \<and> level PIN_CHRIMSON_STIM (out m') = level PIN_CHRIMSON_STIM (out a)"
proof -
  let ?e = "Chrimson_stim_entry (handleAnalogOutput (readHostMessage inp m))"
  let ?a = "checkStimChrimson (millis_now inp) ?e"
  have c: "command ?a = command_of inp" by (simp add: Chrimson_stim_entry_def)
  have q: "checkQuit ?e = (False, ?e)"
    using assms(2) by (simp add: checkQuit_def Chrimson_stim_entry_def)
  from assms(4) c have r: "pin_CHRIMSON_TRIGGER inp \<or> command ?a = CHR ''C''" by simp
  obtain b x where bx: "checkChrimsonRequest inp ?a = (b, x)"
    by (cases "checkChrimsonRequest inp ?a")
  with checkChrimsonRequest_restart [OF r] have b by simp
  have "loop_step inp m = Inr (Chrimson_stim_state inp (handleAnalogOutput (readHostMessage inp m)))"
    using assms(1,3) by (simp add: loop_step_def Let_def)
  also have "Chrimson_stim_state inp (handleAnalogOutput (readHostMessage inp m)) = x"
    using bx \<open>b\<close> by (simp add: Chrimson_stim_state_def q)
  finally have "loop_step inp m = Inr x" .
  with checkChrimsonRequest_restart [OF r] bx show ?thesis by (simp add: Let_def)
qed


theorem chrimson_request_restarts_session_witness:
  "(let m = result_or booted (run mid_pulse booted); inp = host (CHR ''C'') 0 0 205;
        a = checkStimChrimson (millis_now inp)
              (Chrimson_stim_entry (handleAnalogOutput (readHostMessage inp m)))
    in state m = CHRIMSON_STIM_STATE \<and> inPulse m
       \<and> (\<exists>m'. loop_step inp m = Inr m' \<and> state m' = CHRIMSON_STIM_STATE
              \<and> pulseIndex m' = 0 \<and> \<not> inPulse m' \<and> currentTrain m' = 0 \<and> singleTrainMode m'
              \<and> BOSS_CHRIMSON_stim_in_progress m' = pin_CHRIMSON_TRIGGER inp
              \<and> UI_CHRIMSON_stim_in_progress m' = (\<not> pin_CHRIMSON_TRIGGER inp)
              \<and> pulseTimer m' = pulseTimer a \<and> ipiTimer m' = ipiTimer a
              \<and> level PIN_CHRIMSON_STIM (out m') = level PIN_CHRIMSON_STIM (out a)))"
proof -
  let ?m = "result_or booted (run mid_pulse booted)"
  let ?inp = "host (CHR ''C'') 0 0 205"
  have h: "state ?m = CHRIMSON_STIM_STATE \<and> inPulse ?m" by code_simp
  have i: "command_of ?inp \<noteq> CHR ''Q''" "command_of ?inp \<noteq> CHR ''R''"
      "pin_CHRIMSON_TRIGGER ?inp \<or> command_of ?inp = CHR ''C''"
    by (simp_all add: host_def command_of_def)
  from h have h1: "state ?m = CHRIMSON_STIM_STATE" by simp
  show ?thesis
    using chrimson_request_restarts_session [OF h1 i] h unfolding Let_def by simp
qed

section \<open>The pulse train (C2)\<close>

text \<open>A debug line is neither a pin write nor a result code, so the engine is analysed with
  \<^verbatim>\<open>debugMessage\<close> written as one update of the output.\<close>

lemma pulse_edges_Suc: "pulse_edges (Suc k) = pulse_edges k @ [True, False]"
  unfolding pulse_edges_def by (induction k) simp_all

lemma pulse_edges_nat: "0 \<le> p \<Longrightarrow> pulse_edges (nat (p + 1)) = pulse_edges (nat p) @ [True, False]"
  by (simp add: nat_add_distrib pulse_edges_Suc)

lemma debugMessage_out:
  "debugMessage s m = m\<lparr>out := out m @ (if params m ! DEBUG \<noteq> 0 then [Send (Debug s)] else [])\<rparr>"
  by (simp add: debugMessage_def sendMessage_def)

lemma silent_debug [simp]:
  "digital_writes p (if c then [Send x] else []) = []"
  "results (if c then [Send (Debug s)] else []) = []"
  by simp_all

lemmas led_defs = debugMessage_out sendMessage_def digitalWrite_def analogWrite_def
  setChrimsonLED_def setChR2LED_def

subsection \<open>The Chrimson engine\<close>

lemma chrimson_running_counted:
  "chrimson_running N m0 m \<longleftrightarrow> chrimson_counted N m0 m \<and> pulseIndex m < N"
  by (auto simp: chrimson_running_def chrimson_counted_def)

lemma chrimsonStartPulse_counted:
  assumes "chrimson_counted N m0 m" "params m0 ! CHRIMSON_NUM_PULSES = of_int N"
  shows "chrimson_counted N m0 (chrimsonStartPulse t m)"
  using assms by (cases "inPulse m") (simp_all add: chrimson_counted_def chrimsonStartPulse_def led_defs)

lemma chrimsonEndPulse_counted:
  assumes "chrimson_counted N m0 m"
  shows "chrimson_counted N m0 (chrimsonEndPulse t m)"
  using assms
  by (cases "inPulse m") (simp_all add: chrimson_counted_def chrimsonEndPulse_def led_defs pulse_edges_nat)

lemma chrimsonTrainComplete_counted:
  assumes "chrimson_counted N m0 m" "params m0 ! CHRIMSON_NUM_PULSES = of_int N"
  shows "if pulseIndex m < N then chrimsonTrainComplete m = m
         else chrimson_done N m0 (chrimsonTrainComplete m)"
proof (cases "pulseIndex m < N")
  case True
  then show ?thesis using assms by (simp add: chrimson_counted_def chrimsonTrainComplete_def)
next
  case False
  with assms(1) have e: "pulseIndex m = N" "\<not> inPulse m" by (auto simp: chrimson_counted_def)
  show ?thesis
  proof (cases "singleTrainMode m0")
    case True
    then show ?thesis using assms e
      by (simp add: chrimson_counted_def chrimson_done_def chrimsonTrainComplete_def
            chrimsonSingleTrainResult_def led_defs Let_def)
  next
    case False
    then show ?thesis using assms e
      by (simp add: chrimson_counted_def chrimson_done_def chrimsonTrainComplete_def
            led_defs Let_def)
  qed
qed

lemma chrimson_step:
  assumes "chrimson_running N m0 m" "params m0 ! CHRIMSON_NUM_PULSES = of_int N"
  shows "(let m' = runChrimsonTrain t m
          in if currentTrain m' = currentTrain m then chrimson_running N m0 m'
             else chrimson_done N m0 m')"
proof -
  let ?a = "chrimsonEndPulse t (chrimsonStartPulse t m)"
  have c: "chrimson_counted N m0 ?a"
    using assms by (simp add: chrimson_running_counted chrimsonStartPulse_counted chrimsonEndPulse_counted)
  have ct: "currentTrain ?a = currentTrain m"
    using c assms(1) by (simp add: chrimson_counted_def chrimson_running_def)
  show ?thesis
  proof (cases "pulseIndex ?a < N")
    case True
    then have "chrimsonTrainComplete ?a = ?a"
      using chrimsonTrainComplete_counted [OF c assms(2)] by simp
    then show ?thesis using c True ct
      by (simp add: runChrimsonTrain_def chrimson_running_counted Let_def)
  next
    case False
    then have d: "chrimson_done N m0 (chrimsonTrainComplete ?a)"
      using chrimsonTrainComplete_counted [OF c assms(2)] by simp
    then have "currentTrain (chrimsonTrainComplete ?a) \<noteq> currentTrain m"
      using assms(1) by (simp add: chrimson_done_def chrimson_running_def)
    then show ?thesis using d by (simp add: runChrimsonTrain_def Let_def)
  qed
qed

lemma chrimson_session_safe:
  assumes "chrimson_running N m0 m" "params m0 ! CHRIMSON_NUM_PULSES = of_int N"
  shows "(let r = chrimson_session ts m
          in if currentTrain r = currentTrain m0 then chrimson_running N m0 r
             else chrimson_done N m0 r)"
  using assms(1)
proof (induction ts arbitrary: m)
  case Nil
  then show ?case by (simp add: chrimson_running_def)
next
  case (Cons t ts)
  have ct: "currentTrain m = currentTrain m0" using Cons.prems by (simp add: chrimson_running_def)
  show ?case
  proof (cases "currentTrain (runChrimsonTrain t m) = currentTrain m")
    case True
    then have "chrimson_running N m0 (runChrimsonTrain t m)"
      using chrimson_step [OF Cons.prems assms(2), of t] by (simp add: Let_def)
    from Cons.IH [OF this] show ?thesis using True by (simp add: Let_def)
  next
    case False
    then have "chrimson_done N m0 (runChrimsonTrain t m)"
      using chrimson_step [OF Cons.prems assms(2), of t] by (simp add: Let_def)
    then show ?thesis using False ct by (simp add: Let_def)
  qed
qed

lemma chrimsonStartPulse_fire:
  assumes "\<not> inPulse m" "of_int (pulseIndex m) < params m ! CHRIMSON_NUM_PULSES"
    and "params m ! CHRIMSON_IPI \<le> elapsed t (ipiTimer m)"
  shows "inPulse (chrimsonStartPulse t m)" "pulseTimer (chrimsonStartPulse t m) = t"
    "pulseIndex (chrimsonStartPulse t m) = pulseIndex m"
    "params (chrimsonStartPulse t m) = params m"
  using assms by (simp_all add: chrimsonStartPulse_def led_defs)

lemma chrimsonStartPulse_idle: "inPulse m \<Longrightarrow> chrimsonStartPulse t m = m"
  by (simp add: chrimsonStartPulse_def)

lemma chrimsonEndPulse_fire:
  assumes "inPulse m" "params m ! CHRIMSON_PULSE_WIDTH \<le> elapsed t (pulseTimer m)"
  shows "\<not> inPulse (chrimsonEndPulse t m)" "ipiTimer (chrimsonEndPulse t m) = t"
    "pulseIndex (chrimsonEndPulse t m) = pulseIndex m + 1"
  using assms by (simp_all add: chrimsonEndPulse_def led_defs)

lemma chrimsonEndPulse_idle:
  "\<not> params m ! CHRIMSON_PULSE_WIDTH \<le> elapsed t (pulseTimer m) \<Longrightarrow> chrimsonEndPulse t m = m"
  by (simp add: chrimsonEndPulse_def)

lemma chrimson_edges_progress:
  assumes "chrimson_running N m0 m" "params m0 ! CHRIMSON_NUM_PULSES = of_int N"
    and "chrimson_due m t"
  shows "(let b = chrimsonEndPulse t (chrimsonStartPulse t m)
          in edges_left N b < edges_left N m
             \<and> (if inPulse b then pulseTimer b = t else ipiTimer b = t))"
proof (cases "inPulse m")
  case True
  with assms(3) have w: "params m ! CHRIMSON_PULSE_WIDTH \<le> elapsed t (pulseTimer m)"
    by (simp add: chrimson_due_def)
  show ?thesis
    using chrimsonEndPulse_fire [OF True w] True
    by (simp add: chrimsonStartPulse_idle edges_left_def Let_def)
next
  case False
  let ?a = "chrimsonStartPulse t m"
  have n: "of_int (pulseIndex m) < params m ! CHRIMSON_NUM_PULSES"
    using assms(1,2) by (simp add: chrimson_running_def)
  have i: "params m ! CHRIMSON_IPI \<le> elapsed t (ipiTimer m)"
    using assms(3) False by (simp add: chrimson_due_def)
  note a = chrimsonStartPulse_fire [OF False n i]
  show ?thesis
  proof (cases "params ?a ! CHRIMSON_PULSE_WIDTH \<le> elapsed t (pulseTimer ?a)")
    case True
    show ?thesis
      using chrimsonEndPulse_fire [OF a(1) True] a False
      by (simp add: edges_left_def Let_def)
  next
    case f: False
    show ?thesis
      using a False by (simp add: chrimsonEndPulse_idle [OF f] edges_left_def Let_def)
  qed
qed

lemma chrimsonTrainComplete_currentTrain:
  "currentTrain (chrimsonTrainComplete b) =
     (if params b ! CHRIMSON_NUM_PULSES \<le> of_int (pulseIndex b) then currentTrain b + 1
      else currentTrain b)"
  by (cases "singleTrainMode b")
     (simp_all add: chrimsonTrainComplete_def chrimsonSingleTrainResult_def led_defs Let_def)

lemma chrimsonTrainComplete_same:
  "currentTrain (chrimsonTrainComplete b) = currentTrain b \<Longrightarrow> chrimsonTrainComplete b = b"
  unfolding chrimsonTrainComplete_currentTrain
  by (simp add: chrimsonTrainComplete_def split: if_splits)

lemma chrimson_live_step:
  assumes "chrimson_running N m0 m" "params m0 ! CHRIMSON_NUM_PULSES = of_int N"
    and "chrimson_due m t" "currentTrain (runChrimsonTrain t m) = currentTrain m"
  shows "edges_left N (runChrimsonTrain t m) < edges_left N m
         \<and> (if inPulse (runChrimsonTrain t m) then pulseTimer (runChrimsonTrain t m) = t
            else ipiTimer (runChrimsonTrain t m) = t)"
proof -
  let ?b = "chrimsonEndPulse t (chrimsonStartPulse t m)"
  have "chrimson_counted N m0 ?b"
    using assms(1,2)
    by (simp add: chrimson_running_counted chrimsonStartPulse_counted chrimsonEndPulse_counted)
  then have "currentTrain ?b = currentTrain m"
    using assms(1) by (simp add: chrimson_counted_def chrimson_running_def)
  with assms(4) have "chrimsonTrainComplete ?b = ?b"
    by (simp add: runChrimsonTrain_def chrimsonTrainComplete_same)
  then have "runChrimsonTrain t m = ?b" by (simp add: runChrimsonTrain_def)
  then show ?thesis
    using chrimson_edges_progress [OF assms(1-3)] by (simp add: Let_def)
qed

lemma chrimson_session_live:
  assumes "params m0 ! CHRIMSON_NUM_PULSES = of_int N"
    and "params m0 ! CHRIMSON_IPI \<le> d" "params m0 ! CHRIMSON_PULSE_WIDTH \<le> d"
  shows "chrimson_running N m0 m \<Longrightarrow> edges_left N m \<le> int (length ts)
         \<Longrightarrow> (case ts of [] \<Rightarrow> True | t # ts' \<Rightarrow> chrimson_due m t \<and> paced d t ts')
         \<Longrightarrow> currentTrain (chrimson_session ts m) \<noteq> currentTrain m0"
proof (induction ts arbitrary: m)
  case Nil
  then show ?case by (simp add: chrimson_running_def edges_left_def split: if_splits)
next
  case (Cons t ts)
  have ct: "currentTrain m = currentTrain m0" using Cons.prems by (simp add: chrimson_running_def)
  have due: "chrimson_due m t" and pc: "paced d t ts" using Cons.prems(3) by simp_all
  let ?m = "runChrimsonTrain t m"
  show ?case
  proof (cases "currentTrain ?m = currentTrain m")
    case False
    then show ?thesis using ct by (simp add: Let_def)
  next
    case True
    then have r: "chrimson_running N m0 ?m"
      using chrimson_step [OF Cons.prems(1) assms(1), of t] by (simp add: Let_def)
    have l: "edges_left N ?m < edges_left N m"
      and tm: "if inPulse ?m then pulseTimer ?m = t else ipiTimer ?m = t"
      using chrimson_live_step [OF Cons.prems(1) assms(1) due True] by simp_all
    have e: "edges_left N ?m \<le> int (length ts)" using l Cons.prems(2) by simp
    have p: "params ?m = params m0" using r by (simp add: chrimson_running_def)
    have n: "case ts of [] \<Rightarrow> True | t' # ts' \<Rightarrow> chrimson_due ?m t' \<and> paced d t' ts'"
    proof (cases ts)
      case Nil
      then show ?thesis by simp
    next
      case (Cons t' ts')
      with pc have "d \<le> elapsed t' t" "paced d t' ts'" by simp_all
      then show ?thesis using Cons tm assms(2,3) p
        by (simp add: chrimson_due_def split: if_splits)
    qed
    from Cons.IH [OF r e n] show ?thesis using True by (simp add: Let_def)
  qed
qed

lemma chrimson_paced_due:
  "paced d t0 ts \<Longrightarrow> \<not> inPulse m \<Longrightarrow> ipiTimer m = t0 \<Longrightarrow> params m ! CHRIMSON_IPI \<le> d
   \<Longrightarrow> (case ts of [] \<Rightarrow> True | t # ts' \<Rightarrow> chrimson_due m t \<and> paced d t ts')"
  by (cases ts) (simp_all add: chrimson_due_def)

lemma chrimson_running_start:
  "pulseIndex m0 = 0 \<Longrightarrow> \<not> inPulse m0 \<Longrightarrow> 0 < N \<Longrightarrow> chrimson_running N m0 m0"
  by (simp add: chrimson_running_def pulse_edges_def)

lemma chrimson_train:
  assumes "pulseIndex m0 = 0" "\<not> inPulse m0" "0 < N"
    and "params m0 ! CHRIMSON_NUM_PULSES = of_int N"
  shows "(let r = chrimson_session ts m0
          in (if currentTrain r = currentTrain m0 then chrimson_running N m0 r
              else chrimson_done N m0 r)
           \<and> (paced (max (params m0 ! CHRIMSON_IPI) (params m0 ! CHRIMSON_PULSE_WIDTH))
                 (ipiTimer m0) ts \<and> 2 * N \<le> int (length ts) \<longrightarrow> chrimson_done N m0 r))"
proof -
  let ?d = "max (params m0 ! CHRIMSON_IPI) (params m0 ! CHRIMSON_PULSE_WIDTH)"
  have r: "chrimson_running N m0 m0" using assms(1-3) by (rule chrimson_running_start)
  have s: "if currentTrain (chrimson_session ts m0) = currentTrain m0
           then chrimson_running N m0 (chrimson_session ts m0)
           else chrimson_done N m0 (chrimson_session ts m0)"
    using chrimson_session_safe [OF r assms(4), of ts] by (simp add: Let_def)
  have "chrimson_done N m0 (chrimson_session ts m0)"
    if p: "paced ?d (ipiTimer m0) ts" and n: "2 * N \<le> int (length ts)"
  proof -
    have e: "edges_left N m0 \<le> int (length ts)"
      using n assms(1,2) by (simp add: edges_left_def)
    have d: "case ts of [] \<Rightarrow> True | t # ts' \<Rightarrow> chrimson_due m0 t \<and> paced ?d t ts'"
      using chrimson_paced_due [OF p assms(2)] by simp
    have "currentTrain (chrimson_session ts m0) \<noteq> currentTrain m0"
      using chrimson_session_live [OF assms(4) _ _ r e d] by simp
    with s show ?thesis by simp
  qed
  with s show ?thesis by (simp add: Let_def)
qed

subsection \<open>The ChR2 engine\<close>

lemma chR2_running_counted:
  "chR2_running N m0 m \<longleftrightarrow> chR2_counted N m0 m \<and> pulseIndex m < N"
  by (auto simp: chR2_running_def chR2_counted_def)

lemma chR2StartPulse_counted:
  assumes "chR2_counted N m0 m" "params m0 ! CHR2_NUM_PULSES = of_int N"
  shows "chR2_counted N m0 (chR2StartPulse t m)"
  using assms by (cases "inPulse m") (simp_all add: chR2_counted_def chR2StartPulse_def led_defs)

lemma chR2EndPulse_counted:
  assumes "chR2_counted N m0 m"
  shows "chR2_counted N m0 (chR2EndPulse t m)"
  using assms
  by (cases "inPulse m") (simp_all add: chR2_counted_def chR2EndPulse_def led_defs pulse_edges_nat)

lemma chR2TrainComplete_counted:
  assumes "chR2_counted N m0 m" "params m0 ! CHR2_NUM_PULSES = of_int N"
  shows "if pulseIndex m < N then chR2TrainComplete m = m
         else chR2_done N m0 (chR2TrainComplete m)"
proof (cases "pulseIndex m < N")
  case True
  then show ?thesis using assms by (simp add: chR2_counted_def chR2TrainComplete_def)
next
  case False
  with assms(1) have e: "pulseIndex m = N" "\<not> inPulse m" by (auto simp: chR2_counted_def)
  show ?thesis
  proof (cases "singleTrainMode m0")
    case True
    then show ?thesis using assms e
      by (simp add: chR2_counted_def chR2_done_def chR2TrainComplete_def
            chR2SingleTrainResult_def led_defs Let_def)
  next
    case False
    then show ?thesis using assms e
      by (simp add: chR2_counted_def chR2_done_def chR2TrainComplete_def
            led_defs Let_def)
  qed
qed

lemma chR2_step:
  assumes "chR2_running N m0 m" "params m0 ! CHR2_NUM_PULSES = of_int N"
  shows "(let m' = runChR2Train t m
          in if currentTrain m' = currentTrain m then chR2_running N m0 m'
             else chR2_done N m0 m')"
proof -
  let ?a = "chR2EndPulse t (chR2StartPulse t m)"
  have c: "chR2_counted N m0 ?a"
    using assms by (simp add: chR2_running_counted chR2StartPulse_counted chR2EndPulse_counted)
  have ct: "currentTrain ?a = currentTrain m"
    using c assms(1) by (simp add: chR2_counted_def chR2_running_def)
  show ?thesis
  proof (cases "pulseIndex ?a < N")
    case True
    then have "chR2TrainComplete ?a = ?a"
      using chR2TrainComplete_counted [OF c assms(2)] by simp
    then show ?thesis using c True ct
      by (simp add: runChR2Train_def chR2_running_counted Let_def)
  next
    case False
    then have d: "chR2_done N m0 (chR2TrainComplete ?a)"
      using chR2TrainComplete_counted [OF c assms(2)] by simp
    then have "currentTrain (chR2TrainComplete ?a) \<noteq> currentTrain m"
      using assms(1) by (simp add: chR2_done_def chR2_running_def)
    then show ?thesis using d by (simp add: runChR2Train_def Let_def)
  qed
qed

lemma chR2_session_safe:
  assumes "chR2_running N m0 m" "params m0 ! CHR2_NUM_PULSES = of_int N"
  shows "(let r = chR2_session ts m
          in if currentTrain r = currentTrain m0 then chR2_running N m0 r
             else chR2_done N m0 r)"
  using assms(1)
proof (induction ts arbitrary: m)
  case Nil
  then show ?case by (simp add: chR2_running_def)
next
  case (Cons t ts)
  have ct: "currentTrain m = currentTrain m0" using Cons.prems by (simp add: chR2_running_def)
  show ?case
  proof (cases "currentTrain (runChR2Train t m) = currentTrain m")
    case True
    then have "chR2_running N m0 (runChR2Train t m)"
      using chR2_step [OF Cons.prems assms(2), of t] by (simp add: Let_def)
    from Cons.IH [OF this] show ?thesis using True by (simp add: Let_def)
  next
    case False
    then have "chR2_done N m0 (runChR2Train t m)"
      using chR2_step [OF Cons.prems assms(2), of t] by (simp add: Let_def)
    then show ?thesis using False ct by (simp add: Let_def)
  qed
qed

lemma chR2StartPulse_fire:
  assumes "\<not> inPulse m" "of_int (pulseIndex m) < params m ! CHR2_NUM_PULSES"
    and "params m ! CHR2_IPI \<le> elapsed t (chR2ipiTimer m)"
  shows "inPulse (chR2StartPulse t m)" "pulseTimer (chR2StartPulse t m) = t"
    "pulseIndex (chR2StartPulse t m) = pulseIndex m"
    "params (chR2StartPulse t m) = params m"
  using assms by (simp_all add: chR2StartPulse_def led_defs)

lemma chR2StartPulse_idle: "inPulse m \<Longrightarrow> chR2StartPulse t m = m"
  by (simp add: chR2StartPulse_def)

lemma chR2EndPulse_fire:
  assumes "inPulse m" "params m ! CHR2_PULSE_WIDTH \<le> elapsed t (pulseTimer m)"
  shows "\<not> inPulse (chR2EndPulse t m)" "chR2ipiTimer (chR2EndPulse t m) = t"
    "pulseIndex (chR2EndPulse t m) = pulseIndex m + 1"
  using assms by (simp_all add: chR2EndPulse_def led_defs)

lemma chR2EndPulse_idle:
  "\<not> params m ! CHR2_PULSE_WIDTH \<le> elapsed t (pulseTimer m) \<Longrightarrow> chR2EndPulse t m = m"
  by (simp add: chR2EndPulse_def)

lemma chR2_edges_progress:
  assumes "chR2_running N m0 m" "params m0 ! CHR2_NUM_PULSES = of_int N"
    and "chR2_due m t"
  shows "(let b = chR2EndPulse t (chR2StartPulse t m)
          in edges_left N b < edges_left N m
             \<and> (if inPulse b then pulseTimer b = t else chR2ipiTimer b = t))"
proof (cases "inPulse m")
  case True
  with assms(3) have w: "params m ! CHR2_PULSE_WIDTH \<le> elapsed t (pulseTimer m)"
    by (simp add: chR2_due_def)
  show ?thesis
    using chR2EndPulse_fire [OF True w] True
    by (simp add: chR2StartPulse_idle edges_left_def Let_def)
next
  case False
  let ?a = "chR2StartPulse t m"
  have n: "of_int (pulseIndex m) < params m ! CHR2_NUM_PULSES"
    using assms(1,2) by (simp add: chR2_running_def)
  have i: "params m ! CHR2_IPI \<le> elapsed t (chR2ipiTimer m)"
    using assms(3) False by (simp add: chR2_due_def)
  note a = chR2StartPulse_fire [OF False n i]
  show ?thesis
  proof (cases "params ?a ! CHR2_PULSE_WIDTH \<le> elapsed t (pulseTimer ?a)")
    case True
    show ?thesis
      using chR2EndPulse_fire [OF a(1) True] a False
      by (simp add: edges_left_def Let_def)
  next
    case f: False
    show ?thesis
      using a False by (simp add: chR2EndPulse_idle [OF f] edges_left_def Let_def)
  qed
qed

lemma chR2TrainComplete_currentTrain:
  "currentTrain (chR2TrainComplete b) =
     (if params b ! CHR2_NUM_PULSES \<le> of_int (pulseIndex b) then currentTrain b + 1
      else currentTrain b)"
  by (cases "singleTrainMode b")
     (simp_all add: chR2TrainComplete_def chR2SingleTrainResult_def led_defs Let_def)

lemma chR2TrainComplete_same:
  "currentTrain (chR2TrainComplete b) = currentTrain b \<Longrightarrow> chR2TrainComplete b = b"
  unfolding chR2TrainComplete_currentTrain
  by (simp add: chR2TrainComplete_def split: if_splits)

lemma chR2_live_step:
  assumes "chR2_running N m0 m" "params m0 ! CHR2_NUM_PULSES = of_int N"
    and "chR2_due m t" "currentTrain (runChR2Train t m) = currentTrain m"
  shows "edges_left N (runChR2Train t m) < edges_left N m
         \<and> (if inPulse (runChR2Train t m) then pulseTimer (runChR2Train t m) = t
            else chR2ipiTimer (runChR2Train t m) = t)"
proof -
  let ?b = "chR2EndPulse t (chR2StartPulse t m)"
  have "chR2_counted N m0 ?b"
    using assms(1,2)
    by (simp add: chR2_running_counted chR2StartPulse_counted chR2EndPulse_counted)
  then have "currentTrain ?b = currentTrain m"
    using assms(1) by (simp add: chR2_counted_def chR2_running_def)
  with assms(4) have "chR2TrainComplete ?b = ?b"
    by (simp add: runChR2Train_def chR2TrainComplete_same)
  then have "runChR2Train t m = ?b" by (simp add: runChR2Train_def)
  then show ?thesis
    using chR2_edges_progress [OF assms(1-3)] by (simp add: Let_def)
qed

lemma chR2_session_live:
  assumes "params m0 ! CHR2_NUM_PULSES = of_int N"
    and "params m0 ! CHR2_IPI \<le> d" "params m0 ! CHR2_PULSE_WIDTH \<le> d"
  shows "chR2_running N m0 m \<Longrightarrow> edges_left N m \<le> int (length ts)
         \<Longrightarrow> (case ts of [] \<Rightarrow> True | t # ts' \<Rightarrow> chR2_due m t \<and> paced d t ts')
         \<Longrightarrow> currentTrain (chR2_session ts m) \<noteq> currentTrain m0"
proof (induction ts arbitrary: m)
  case Nil
  then show ?case by (simp add: chR2_running_def edges_left_def split: if_splits)
next
  case (Cons t ts)
  have ct: "currentTrain m = currentTrain m0" using Cons.prems by (simp add: chR2_running_def)
  have due: "chR2_due m t" and pc: "paced d t ts" using Cons.prems(3) by simp_all
  let ?m = "runChR2Train t m"
  show ?case
  proof (cases "currentTrain ?m = currentTrain m")
    case False
    then show ?thesis using ct by (simp add: Let_def)
  next
    case True
    then have r: "chR2_running N m0 ?m"
      using chR2_step [OF Cons.prems(1) assms(1), of t] by (simp add: Let_def)
    have l: "edges_left N ?m < edges_left N m"
      and tm: "if inPulse ?m then pulseTimer ?m = t else chR2ipiTimer ?m = t"
      using chR2_live_step [OF Cons.prems(1) assms(1) due True] by simp_all
    have e: "edges_left N ?m \<le> int (length ts)" using l Cons.prems(2) by simp
    have p: "params ?m = params m0" using r by (simp add: chR2_running_def)
    have n: "case ts of [] \<Rightarrow> True | t' # ts' \<Rightarrow> chR2_due ?m t' \<and> paced d t' ts'"
    proof (cases ts)
      case Nil
      then show ?thesis by simp
    next
      case (Cons t' ts')
      with pc have "d \<le> elapsed t' t" "paced d t' ts'" by simp_all
      then show ?thesis using Cons tm assms(2,3) p
        by (simp add: chR2_due_def split: if_splits)
    qed
    from Cons.IH [OF r e n] show ?thesis using True by (simp add: Let_def)
  qed
qed

lemma chR2_paced_due:
  "paced d t0 ts \<Longrightarrow> \<not> inPulse m \<Longrightarrow> chR2ipiTimer m = t0 \<Longrightarrow> params m ! CHR2_IPI \<le> d
   \<Longrightarrow> (case ts of [] \<Rightarrow> True | t # ts' \<Rightarrow> chR2_due m t \<and> paced d t ts')"
  by (cases ts) (simp_all add: chR2_due_def)

lemma chR2_running_start:
  "pulseIndex m0 = 0 \<Longrightarrow> \<not> inPulse m0 \<Longrightarrow> 0 < N \<Longrightarrow> chR2_running N m0 m0"
  by (simp add: chR2_running_def pulse_edges_def)

lemma chR2_train:
  assumes "pulseIndex m0 = 0" "\<not> inPulse m0" "0 < N"
    and "params m0 ! CHR2_NUM_PULSES = of_int N"
  shows "(let r = chR2_session ts m0
          in (if currentTrain r = currentTrain m0 then chR2_running N m0 r
              else chR2_done N m0 r)
           \<and> (paced (max (params m0 ! CHR2_IPI) (params m0 ! CHR2_PULSE_WIDTH))
                 (chR2ipiTimer m0) ts \<and> 2 * N \<le> int (length ts) \<longrightarrow> chR2_done N m0 r))"
proof -
  let ?d = "max (params m0 ! CHR2_IPI) (params m0 ! CHR2_PULSE_WIDTH)"
  have r: "chR2_running N m0 m0" using assms(1-3) by (rule chR2_running_start)
  have s: "if currentTrain (chR2_session ts m0) = currentTrain m0
           then chR2_running N m0 (chR2_session ts m0)
           else chR2_done N m0 (chR2_session ts m0)"
    using chR2_session_safe [OF r assms(4), of ts] by (simp add: Let_def)
  have "chR2_done N m0 (chR2_session ts m0)"
    if p: "paced ?d (chR2ipiTimer m0) ts" and n: "2 * N \<le> int (length ts)"
  proof -
    have e: "edges_left N m0 \<le> int (length ts)"
      using n assms(1,2) by (simp add: edges_left_def)
    have d: "case ts of [] \<Rightarrow> True | t # ts' \<Rightarrow> chR2_due m0 t \<and> paced ?d t ts'"
      using chR2_paced_due [OF p assms(2)] by simp
    have "currentTrain (chR2_session ts m0) \<noteq> currentTrain m0"
      using chR2_session_live [OF assms(4) _ _ r e d] by simp
    with s show ?thesis by simp
  qed
  with s show ?thesis by (simp add: Let_def)
qed

subsection \<open>The claim\<close>

text \<open>
  C2. A session starts with pulse index 0 and no pulse in progress, and its pulse count is
  the integer \<open>N > 0\<close>. Let the engine of a channel be called at any clock readings until a call
  changes the train counter. As long as no call has done so, the train is running: fewer than
  \<open>N\<close> pulses are complete and the LED writes are those of the complete pulses and of the one
  in progress. The call that changes the train counter ends the \<open>N\<close>-th pulse: the LED has been
  turned on and off exactly \<open>N\<close> times, the pulse index is 0 again and the train counter is one
  more; in single-train mode that call sends the result code and sets the wait-request
  state. If consecutive readings are no closer than the larger of the inter-pulse interval
  and the pulse width, \<open>2 N\<close> calls are enough for the train to be done. This holds for the
  Chrimson and for the ChR2 engine.
\<close>

theorem pulse_train_engine:
  assumes "pulseIndex m0 = 0" "\<not> inPulse m0" "0 < N"
  shows "(params m0 ! CHRIMSON_NUM_PULSES = of_int N \<longrightarrow>
           (let r = chrimson_session ts m0
            in (if currentTrain r = currentTrain m0 then chrimson_running N m0 r
                else chrimson_done N m0 r)
             \<and> (paced (max (params m0 ! CHRIMSON_IPI) (params m0 ! CHRIMSON_PULSE_WIDTH))
                   (ipiTimer m0) ts \<and> 2 * N \<le> int (length ts) \<longrightarrow> chrimson_done N m0 r)))
       \<and> (params m0 ! CHR2_NUM_PULSES = of_int N \<longrightarrow>
           (let r = chR2_session ts m0
            in (if currentTrain r = currentTrain m0 then chR2_running N m0 r
                else chR2_done N m0 r)
             \<and> (paced (max (params m0 ! CHR2_IPI) (params m0 ! CHR2_PULSE_WIDTH))
                   (chR2ipiTimer m0) ts \<and> 2 * N \<le> int (length ts) \<longrightarrow> chR2_done N m0 r)))"
  using chrimson_train [OF assms, of ts] chR2_train [OF assms, of ts] by blast

theorem pulse_train_engine_witness:
  "(let m0 = result_or booted (run chrimson_requested booted);
        ts = [100, 200, 300, 400, 500, 600, 700, 800, 900, 1000];
        r = chrimson_session ts m0
    in pulseIndex m0 = 0 \<and> \<not> inPulse m0 \<and> params m0 ! CHRIMSON_NUM_PULSES = 5
       \<and> singleTrainMode m0 \<and> UI_CHRIMSON_stim_in_progress m0
       \<and> \<not> BOSS_CHRIMSON_stim_in_progress m0 \<and> results (out m0) = []
       \<and> paced (max (params m0 ! CHRIMSON_IPI) (params m0 ! CHRIMSON_PULSE_WIDTH)) (ipiTimer m0) ts
       \<and> currentTrain r = currentTrain m0 + 1 \<and> pulseIndex r = 0 \<and> \<not> inPulse r
       \<and> digital_writes PIN_CHRIMSON_STIM (out r) =
           digital_writes PIN_CHRIMSON_STIM (out m0)
             @ [True, False, True, False, True, False, True, False, True, False]
       \<and> state r = WAIT_REQUEST_STATE \<and> results (out r) = [CODE_UI_CHRIMSON])"
proof -
  let ?m0 = "result_or booted (run chrimson_requested booted)"
  let ?ts = "[100, 200, 300, 400, 500, 600, 700, 800, 900, 1000] :: millis list"
  have h: "pulseIndex ?m0 = 0 \<and> \<not> inPulse ?m0 \<and> params ?m0 ! CHRIMSON_NUM_PULSES = 5
       \<and> singleTrainMode ?m0 \<and> UI_CHRIMSON_stim_in_progress ?m0
       \<and> \<not> BOSS_CHRIMSON_stim_in_progress ?m0 \<and> results (out ?m0) = []
       \<and> paced (max (params ?m0 ! CHRIMSON_IPI) (params ?m0 ! CHRIMSON_PULSE_WIDTH))
            (ipiTimer ?m0) ?ts"
    by code_simp
  then have h1: "pulseIndex ?m0 = 0" and h2: "\<not> inPulse ?m0" by simp_all
  have e: "pulse_edges 5 = [True, False, True, False, True, False, True, False, True, False]"
    by (simp add: pulse_edges_def eval_nat_numeral)
  show ?thesis
    using pulse_train_engine [OF h1 h2, of 5 ?ts] h e
    by (simp add: Let_def chrimson_done_def)
qed

text \<open>The train of the default parameters (5 pulses of 10 ms, 100 ms apart), with the engine
  called when a pulse starts and when it ends.\<close>

lemma default_train_five_pulses:
  "(let m0 = stimulateChrimson (booted\<lparr>UI_CHRIMSON_stim_in_progress := True\<rparr>);
        r = chrimson_session [200, 210, 310, 320, 420, 430, 530, 540, 640, 650, 750] m0
    in currentTrain r = 1 \<and> pulseIndex r = 0 \<and> state r = WAIT_REQUEST_STATE
       \<and> results (out r) = [CODE_UI_CHRIMSON] \<and> ipiTimer r = 650
       \<and> digital_writes PIN_CHRIMSON_STIM (out r) =
           digital_writes PIN_CHRIMSON_STIM (out m0)
             @ [True, False, True, False, True, False, True, False, True, False])"
  by code_simp

section \<open>The bookkeeping shared by the two channels (C10)\<close>

text \<open>
  C10. The file has one \<^verbatim>\<open>inPulse\<close>, one \<^verbatim>\<open>pulseIndex\<close>, one \<^verbatim>\<open>pulseTimer\<close> and one \<^verbatim>\<open>currentTrain\<close>,
  and the functions of both channels assign them. Starting a session of either channel sets
  the pulse index and the train counter to 0 and clears the in-pulse flag, whatever the
  other channel had left there. A call of either engine that starts a pulse sets the in-pulse
  flag and the pulse timer; a call of either engine at which the pulse width has elapsed
  clears the in-pulse flag and counts a pulse, whichever channel had started it, and at the
  last pulse of a train resets the pulse index and increments the train counter.
\<close>

theorem shared_pulse_bookkeeping:
  "pulseIndex (stimulateChR2 m) = 0 \<and> \<not> inPulse (stimulateChR2 m)
   \<and> currentTrain (stimulateChR2 m) = 0
   \<and> pulseIndex (stimulateChrimson m) = 0 \<and> \<not> inPulse (stimulateChrimson m)
   \<and> currentTrain (stimulateChrimson m) = 0
   \<and> (\<not> inPulse m \<and> of_int (pulseIndex m) < params m ! CHR2_NUM_PULSES
        \<and> params m ! CHR2_IPI \<le> elapsed t (chR2ipiTimer m) \<and> 0 < params m ! CHR2_PULSE_WIDTH
      \<longrightarrow> inPulse (runChR2Train t m) \<and> pulseTimer (runChR2Train t m) = t)
   \<and> (inPulse m \<and> params m ! CHR2_PULSE_WIDTH \<le> elapsed t (pulseTimer m)
      \<longrightarrow> \<not> inPulse (runChR2Train t m)
          \<and> (if of_int (pulseIndex m + 1) < params m ! CHR2_NUM_PULSES
             then pulseIndex (runChR2Train t m) = pulseIndex m + 1
                \<and> currentTrain (runChR2Train t m) = currentTrain m
             else pulseIndex (runChR2Train t m) = 0
                \<and> currentTrain (runChR2Train t m) = currentTrain m + 1))
   \<and> (\<not> inPulse m \<and> of_int (pulseIndex m) < params m ! CHRIMSON_NUM_PULSES
        \<and> params m ! CHRIMSON_IPI \<le> elapsed t (ipiTimer m) \<and> 0 < params m ! CHRIMSON_PULSE_WIDTH
      \<longrightarrow> inPulse (runChrimsonTrain t m) \<and> pulseTimer (runChrimsonTrain t m) = t)
   \<and> (inPulse m \<and> params m ! CHRIMSON_PULSE_WIDTH \<le> elapsed t (pulseTimer m)
      \<longrightarrow> \<not> inPulse (runChrimsonTrain t m)
          \<and> (if of_int (pulseIndex m + 1) < params m ! CHRIMSON_NUM_PULSES
             then pulseIndex (runChrimsonTrain t m) = pulseIndex m + 1
                \<and> currentTrain (runChrimsonTrain t m) = currentTrain m
             else pulseIndex (runChrimsonTrain t m) = 0
                \<and> currentTrain (runChrimsonTrain t m) = currentTrain m + 1))"
proof (intro conjI impI)
  assume a: "\<not> inPulse m \<and> of_int (pulseIndex m) < params m ! CHR2_NUM_PULSES
        \<and> params m ! CHR2_IPI \<le> elapsed t (chR2ipiTimer m) \<and> 0 < params m ! CHR2_PULSE_WIDTH"
  then show "inPulse (runChR2Train t m)" "pulseTimer (runChR2Train t m) = t"
    by (simp_all add: chR2_engine_defs led_defs)
next
  assume a: "inPulse m \<and> params m ! CHR2_PULSE_WIDTH \<le> elapsed t (pulseTimer m)"
  then show "\<not> inPulse (runChR2Train t m)"
    by (cases "singleTrainMode m") (simp_all add: chR2_engine_defs led_defs Let_def)
  from a show "if of_int (pulseIndex m + 1) < params m ! CHR2_NUM_PULSES
             then pulseIndex (runChR2Train t m) = pulseIndex m + 1
                \<and> currentTrain (runChR2Train t m) = currentTrain m
             else pulseIndex (runChR2Train t m) = 0
                \<and> currentTrain (runChR2Train t m) = currentTrain m + 1"
    by (cases "singleTrainMode m") (simp_all add: chR2_engine_defs led_defs Let_def)
next
  assume a: "\<not> inPulse m \<and> of_int (pulseIndex m) < params m ! CHRIMSON_NUM_PULSES
        \<and> params m ! CHRIMSON_IPI \<le> elapsed t (ipiTimer m) \<and> 0 < params m ! CHRIMSON_PULSE_WIDTH"
  then show "inPulse (runChrimsonTrain t m)" "pulseTimer (runChrimsonTrain t m) = t"
    by (simp_all add: chrimson_engine_defs led_defs)
next
  assume a: "inPulse m \<and> params m ! CHRIMSON_PULSE_WIDTH \<le> elapsed t (pulseTimer m)"
  then show "\<not> inPulse (runChrimsonTrain t m)"
    by (cases "singleTrainMode m") (simp_all add: chrimson_engine_defs led_defs Let_def)
  from a show "if of_int (pulseIndex m + 1) < params m ! CHRIMSON_NUM_PULSES
             then pulseIndex (runChrimsonTrain t m) = pulseIndex m + 1
                \<and> currentTrain (runChrimsonTrain t m) = currentTrain m
             else pulseIndex (runChrimsonTrain t m) = 0
                \<and> currentTrain (runChrimsonTrain t m) = currentTrain m + 1"
    by (cases "singleTrainMode m") (simp_all add: chrimson_engine_defs led_defs Let_def)
qed (simp_all add: stimulateChR2_def stimulateChrimson_def led_defs)

theorem shared_pulse_bookkeeping_witness:
  "(let m1 = stimulateChR2 booted; m2 = runChR2Train 200 m1
    in \<not> inPulse m1 \<and> pulseIndex m1 = 0 \<and> inPulse m2 \<and> pulseTimer m2 = 200
       \<and> inPulse (runChrimsonTrain 200 m1) \<and> pulseTimer (runChrimsonTrain 200 m1) = 200
       \<and> \<not> inPulse (runChR2Train 210 m2) \<and> pulseIndex (runChR2Train 210 m2) = 1
       \<and> \<not> inPulse (runChrimsonTrain 210 m2) \<and> pulseIndex (runChrimsonTrain 210 m2) = 1)"
proof -
  let ?m1 = "stimulateChR2 booted"
  let ?m2 = "runChR2Train 200 ?m1"
  have h1: "\<not> inPulse ?m1 \<and> of_int (pulseIndex ?m1) < params ?m1 ! CHR2_NUM_PULSES
        \<and> params ?m1 ! CHR2_IPI \<le> elapsed 200 (chR2ipiTimer ?m1)
        \<and> 0 < params ?m1 ! CHR2_PULSE_WIDTH"
      "\<not> inPulse ?m1 \<and> of_int (pulseIndex ?m1) < params ?m1 ! CHRIMSON_NUM_PULSES
        \<and> params ?m1 ! CHRIMSON_IPI \<le> elapsed 200 (ipiTimer ?m1)
        \<and> 0 < params ?m1 ! CHRIMSON_PULSE_WIDTH"
      "pulseIndex ?m1 = 0"
    by code_simp+
  have h2: "inPulse ?m2 \<and> params ?m2 ! CHR2_PULSE_WIDTH \<le> elapsed 210 (pulseTimer ?m2)"
      "inPulse ?m2 \<and> params ?m2 ! CHRIMSON_PULSE_WIDTH \<le> elapsed 210 (pulseTimer ?m2)"
      "pulseIndex ?m2 = 0" "params ?m2 ! CHR2_NUM_PULSES = 5"
      "params ?m2 ! CHRIMSON_NUM_PULSES = 5" "pulseTimer ?m2 = 200"
    by code_simp+
  show ?thesis
    using shared_pulse_bookkeeping [of ?m1 200] shared_pulse_bookkeeping [of ?m2 210] h1 h2
    by (simp add: Let_def)
qed

text \<open>
  A run that shows it. A host-requested Chrimson session starts its first pulse at 200 ms and
  is quit at 201 ms; the host then asks for ChR2 from the idle state. The first call of the
  ChR2 engine, at 215 ms, finds the in-pulse flag and the pulse timer of the Chrimson pulse,
  ends that pulse and counts it: the ChR2 session has pulse index 1 and the ChR2 LED has
  never been turned on.
\<close>

lemma chR2_counts_chrimson_pulse:
  "(let r = run (chrimson_requested @ [quiet 200, host (CHR ''Q'') 0 0 201,
                   host (CHR ''D'') 0 0 202, quiet 215]) booted
    in final_state r = Some CHR2_STIM_STATE
       \<and> session_of r = Some (1, False, 0, True, 200, 0)
       \<and> True \<notin> set (digital_writes PIN_CHR2_STIM (out_of r)))"
  by code_simp

end
